theory Spec2Isabelle
  imports Complex_Main "HOL-Library.Word" "HOL-Library.AList" "HOL-Library.Multiset"
begin

unbundle bit_operations_syntax

chapter \<open>The model: codec, allocator, metadata, chunk store, client\<close>

text \<open>
  A shallow embedding of the Phase4 sources: \<open>common/erasure_coding.cpp\<close>,
  \<open>common/crypto.cpp\<close>, \<open>master/chunk_allocator.cpp\<close>, \<open>master/metadata_manager.cpp\<close>,
  \<open>master/master_server.cpp\<close>, \<open>chunkserver/chunk_storage.cpp\<close>,
  \<open>chunkserver/chunk_server.cpp\<close> and \<open>client/client.cpp\<close>.  Bytes are \<open>8 word\<close>,
  \<open>std::vector\<close> is a list, a thrown \<open>std::runtime_error\<close> is the left summand of a sum.
\<close>

type_synonym u8 = "8 word"
type_synonym bytes = "u8 list"

section \<open>Reed-Solomon codec (\<open>common/erasure_coding.cpp\<close>)\<close>

datatype ec_error =
    DivisionByZero          \<comment> \<open>"Division by zero in GF(256)"\<close>
  | NotSquare               \<comment> \<open>"Matrix must be square for inversion"\<close>
  | NotInvertible           \<comment> \<open>"Matrix is not invertible"\<close>
  | DimensionMismatch       \<comment> \<open>"Matrix-vector dimension mismatch"\<close>
  | InvalidSize             \<comment> \<open>"Invalid block or availability vector size"\<close>
  | NotEnoughBlocks         \<comment> \<open>"Not enough blocks available for decoding"\<close>
  | NoBlocks                \<comment> \<open>"No blocks available for decoding"\<close>
  | OutOfBounds             \<comment> \<open>a read past the end of a vector (undefined in C++)\<close>

subsection \<open>Galois field tables\<close>

text \<open>
  \<open>initializeTables\<close>: the loop \<open>for (i = 1; i < 255; ++i)\<close> doubles \<open>x\<close>, reduces it
  by \<open>0x11D\<close> when bit 8 is set (\<open>gf_step\<close>), and stores \<open>exp[i] = x\<close>, \<open>log[x] = i\<close>.
  The static arrays start zeroed.  The first argument of \<open>init_loop\<close> counts the remaining
  iterations.
\<close>

definition gf_step :: "nat \<Rightarrow> nat" where
  "gf_step x = (let x1 = push_bit 1 x in if x1 AND 0x100 \<noteq> 0 then x1 XOR 0x11D else x1)"

fun init_loop :: "nat \<Rightarrow> nat \<Rightarrow> nat \<Rightarrow> u8 list \<times> u8 list \<Rightarrow> u8 list \<times> u8 list" where
  "init_loop 0 i x T = T"
| "init_loop (Suc n) i x (ex, lg) =
     init_loop n (Suc i) (gf_step x) (ex[i := of_nat (gf_step x)], lg[gf_step x := of_nat i])"

definition initializeTables :: "u8 list \<times> u8 list" where
  "initializeTables =
     (case init_loop 254 1 1 ((replicate 256 0)[0 := 1], (replicate 256 0)[0 := 0]) of
        (ex, lg) \<Rightarrow> (ex[255 := ex ! 0], lg[1 := 0]))"

definition gf_exp_table :: "u8 list" where
  "gf_exp_table = fst initializeTables"

definition gf_log_table :: "u8 list" where
  "gf_log_table = snd initializeTables"

subsection \<open>Field operations\<close>

definition gf_add :: "u8 \<Rightarrow> u8 \<Rightarrow> u8" where
  "gf_add a b = a XOR b"

definition gf_multiply :: "u8 \<Rightarrow> u8 \<Rightarrow> u8" where
  "gf_multiply a b =
     (if a = 0 \<or> b = 0 then 0
      else let log_a = unat (gf_log_table ! unat a);
               log_b = unat (gf_log_table ! unat b);
               log_result = (log_a + log_b) mod 255
           in gf_exp_table ! log_result)"

definition gf_divide :: "u8 \<Rightarrow> u8 \<Rightarrow> ec_error + u8" where
  "gf_divide a b =
     (if a = 0 then Inr 0
      else if b = 0 then Inl DivisionByZero
      else let log_a = unat (gf_log_table ! unat a);
               log_b = unat (gf_log_table ! unat b);
               log_result = (log_a + 255 - log_b) mod 255
           in Inr (gf_exp_table ! log_result))"

text \<open>\<open>gf_power\<close> is only called with the column index as exponent, which is never negative.\<close>

definition gf_power :: "u8 \<Rightarrow> nat \<Rightarrow> u8" where
  "gf_power base e =
     (if base = 0 then 0
      else if e = 0 then 1
      else let log_base = unat (gf_log_table ! unat base);
               log_result = (log_base * e) mod 255
           in gf_exp_table ! log_result)"

subsection \<open>Matrices\<close>

type_synonym matrix = "u8 list list"

text \<open>\<open>matrix[i][j] = gf_power(i + 1, j)\<close>; the \<open>int\<close> \<open>i + 1\<close> is narrowed to \<open>uint8_t\<close>.\<close>

definition createVandermondeMatrix :: "nat \<Rightarrow> nat \<Rightarrow> matrix" where
  "createVandermondeMatrix rows cols =
     map (\<lambda>i. map (\<lambda>j. gf_power (of_nat (i + 1)) j) [0..<cols]) [0..<rows]"

text \<open>The pivot search: \<open>pivot = i\<close>, replaced by the first \<open>k > i\<close> whose entry in column
  \<open>i\<close> is not zero.\<close>

fun find_pivot :: "matrix \<Rightarrow> nat \<Rightarrow> nat \<Rightarrow> nat list \<Rightarrow> nat" where
  "find_pivot aug i pivot [] = pivot"
| "find_pivot aug i pivot (k # ks) =
     (if aug ! k ! i \<noteq> 0 then k else find_pivot aug i pivot ks)"

text \<open>Scaling row \<open>i\<close>: every non-zero entry is divided by the diagonal element.\<close>

fun scale_row :: "u8 \<Rightarrow> u8 list \<Rightarrow> ec_error + u8 list" where
  "scale_row d [] = Inr []"
| "scale_row d (x # xs) =
     (case (if x \<noteq> 0 then gf_divide x d else Inr x) of
        Inl e \<Rightarrow> Inl e
      | Inr y \<Rightarrow> (case scale_row d xs of Inl e \<Rightarrow> Inl e | Inr ys \<Rightarrow> Inr (y # ys)))"

text \<open>Eliminating column \<open>i\<close> from every other row with a non-zero entry there.\<close>

definition eliminate_row :: "u8 list \<Rightarrow> nat \<Rightarrow> u8 list \<Rightarrow> u8 list" where
  "eliminate_row pivot_row i row =
     (let factor = row ! i
      in map (\<lambda>(a, p). gf_add a (gf_multiply factor p)) (zip row pivot_row))"

fun eliminate_column :: "matrix \<Rightarrow> nat \<Rightarrow> nat list \<Rightarrow> matrix" where
  "eliminate_column aug i [] = aug"
| "eliminate_column aug i (k # ks) =
     (if k \<noteq> i \<and> aug ! k ! i \<noteq> 0
      then eliminate_column (aug[k := eliminate_row (aug ! i) i (aug ! k)]) i ks
      else eliminate_column aug i ks)"

fun gauss_loop :: "nat \<Rightarrow> matrix \<Rightarrow> nat list \<Rightarrow> ec_error + matrix" where
  "gauss_loop n aug [] = Inr aug"
| "gauss_loop n aug (i # is) =
     (let pivot = find_pivot aug i i [Suc i..<n]
      in if aug ! pivot ! i = 0 then Inl NotInvertible
         else let aug1 = (if pivot \<noteq> i then aug[i := aug ! pivot, pivot := aug ! i] else aug);
                  diagonal = aug1 ! i ! i
              in case scale_row diagonal (aug1 ! i) of
                   Inl e \<Rightarrow> Inl e
                 | Inr r \<Rightarrow> gauss_loop n (eliminate_column (aug1[i := r]) i [0..<n]) is)"

text \<open>The augmented matrix \<open>[A|I]\<close> is filled entry by entry with \<open>matrix[i][j]\<close> for
  \<open>i, j < n\<close>; a row of \<open>matrix\<close> shorter than \<open>n\<close> would be read past its end.\<close>

definition invertMatrix :: "matrix \<Rightarrow> ec_error + matrix" where
  "invertMatrix m =
     (let n = length m
      in if n = 0 \<or> length (m ! 0) \<noteq> n then Inl NotSquare
         else if \<exists>r \<in> set m. length r < n then Inl OutOfBounds
         else let augmented =
                    map (\<lambda>i. map (\<lambda>j. m ! i ! j) [0..<n] @ map (\<lambda>j. if i = j then 1 else 0) [0..<n])
                        [0..<n]
              in case gauss_loop n augmented [0..<n] of
                   Inl e \<Rightarrow> Inl e
                 | Inr aug \<Rightarrow> Inr (map (\<lambda>i. map (\<lambda>j. aug ! i ! (j + n)) [0..<n]) [0..<n]))"

text \<open>\<open>matrixVectorMultiply\<close> reads \<open>matrix[0].size()\<close>; every caller passes at least one
  row.  The inner loop accumulates \<open>result[i]\<close> from 0 with \<open>gf_add\<close>.\<close>

definition dot_row :: "u8 list \<Rightarrow> u8 list \<Rightarrow> u8" where
  "dot_row row v = foldl (\<lambda>acc (a, x). gf_add acc (gf_multiply a x)) 0 (zip row v)"

definition matrixVectorMultiply :: "matrix \<Rightarrow> u8 list \<Rightarrow> ec_error + u8 list" where
  "matrixVectorMultiply m v =
     (case m of
        [] \<Rightarrow> Inl OutOfBounds
      | r0 # _ \<Rightarrow>
          if length r0 \<noteq> length v then Inl DimensionMismatch
          else if \<exists>r \<in> set m. length r < length r0 then Inl OutOfBounds
          else Inr (map (\<lambda>row. dot_row (take (length r0) row) v) m))"

subsection \<open>\<open>ErasureCoding::encode\<close>, \<open>decode\<close>, \<open>canDecode\<close>\<close>

text \<open>The codec object holds \<open>data_blocks_\<close> (\<open>k\<close>) and \<open>parity_blocks_\<close> (\<open>m\<close>); they are
  the first two arguments of each method.  \<open>encode\<close> divides by \<open>data_blocks_\<close>, so
  \<open>k = 0\<close> on non-empty data is a division by zero in the source.\<close>

text \<open>A loop whose body may throw stops at the first exception.\<close>

fun collect :: "(ec_error + 'a) list \<Rightarrow> ec_error + 'a list" where
  "collect [] = Inr []"
| "collect (x # xs) =
     (case x of Inl e \<Rightarrow> Inl e
      | Inr y \<Rightarrow> (case collect xs of Inl e \<Rightarrow> Inl e | Inr ys \<Rightarrow> Inr (y # ys)))"

definition pad_to :: "nat \<Rightarrow> bytes \<Rightarrow> bytes" where
  "pad_to n d = d @ replicate (n - length d) 0"

definition encode :: "nat \<Rightarrow> nat \<Rightarrow> bytes \<Rightarrow> ec_error + bytes list" where
  "encode k m d =
     (if d = [] then Inr []
      else if k = 0 then Inl DivisionByZero
      else let block_size = (length d + k - 1) div k;
               padded_data = pad_to (k * block_size) d;
               data_blocks = map (\<lambda>i. take block_size (drop (i * block_size) padded_data)) [0..<k];
               encoding_matrix = createVandermondeMatrix (k + m) k;
               parity = map (\<lambda>i. collect (map (\<lambda>j.
                                   case matrixVectorMultiply [encoding_matrix ! i]
                                          (map (\<lambda>b. data_blocks ! b ! j) [0..<k]) of
                                     Inl e \<Rightarrow> Inl e
                                   | Inr encoded_column \<Rightarrow> Inr (encoded_column ! 0))
                                 [0..<block_size]))
                            [k..<k + m]
           in case collect parity of
                Inl e \<Rightarrow> Inl e
              | Inr parity_blocks \<Rightarrow> Inr (data_blocks @ parity_blocks))"

definition available_indices_of :: "bool list \<Rightarrow> nat list" where
  "available_indices_of availability = filter (\<lambda>i. availability ! i) [0..<length availability]"

definition decode :: "nat \<Rightarrow> nat \<Rightarrow> bytes list \<Rightarrow> bool list \<Rightarrow> ec_error + bytes" where
  "decode k m blocks availability =
     (if length blocks \<noteq> k + m \<or> length availability \<noteq> k + m then Inl InvalidSize
      else let available_indices = available_indices_of availability;
               available_count = length available_indices
           in if available_count < k then Inl NotEnoughBlocks
              else if \<forall>i \<in> set [0..<k]. availability ! i then Inr (concat (take k blocks))
              else let idx = take k available_indices;
                       encoding_matrix = createVandermondeMatrix (k + m) k;
                       decoding_matrix = map (\<lambda>i. encoding_matrix ! (idx ! i)) [0..<k]
                   in case invertMatrix decoding_matrix of
                        Inl e \<Rightarrow> Inl e
                      | Inr inverse_matrix \<Rightarrow>
                          let block_size = length (blocks ! (idx ! 0))
                          in if \<exists>i \<in> set idx. length (blocks ! i) < block_size then Inl OutOfBounds
                             else case collect (map (\<lambda>j. matrixVectorMultiply inverse_matrix
                                                           (map (\<lambda>i. blocks ! (idx ! i) ! j) [0..<k]))
                                                    [0..<block_size]) of
                                    Inl e \<Rightarrow> Inl e
                                  | Inr cols \<Rightarrow>
                                      Inr (concat (map (\<lambda>i. map (\<lambda>c. c ! i) cols) [0..<k])))"

text \<open>\<open>canDecode\<close> counts the true entries in a loop and compares with \<open>data_blocks_\<close>.\<close>

definition canDecode :: "nat \<Rightarrow> bool list \<Rightarrow> bool" where
  "canDecode k availability =
     (let available_count = fold (\<lambda>avail c. if avail then c + 1 else c) availability (0::nat)
      in available_count \<ge> k)"

subsection \<open>\<open>ErasureCodedChunkManager\<close>\<close>

record CodedChunk =
  cc_chunk_id :: string
  block_index :: int
  is_parity :: bool
  cc_data :: bytes
  cc_checksum :: string

record CodeGroup =
  group_id :: string
  blocks :: "CodedChunk list"
  data_blocks :: nat
  parity_blocks :: nat
  original_size :: int

text \<open>\<open>std::to_string\<close> on a non-negative index.\<close>

definition digit_char :: "nat \<Rightarrow> char" where
  "digit_char d = char_of (48 + d)"

function to_string :: "nat \<Rightarrow> string" where
  "to_string n = (if n < 10 then [digit_char n] else to_string (n div 10) @ [digit_char (n mod 10)])"
  by pat_completeness auto
termination
  by (relation "measure id") auto

declare to_string.simps [simp del]

text \<open>\<open>Utils::calculateSHA256\<close> is OpenSSL's digest printed as hex; it is a parameter
  \<open>sha256\<close> of every function that calls it.\<close>

definition encodeChunk ::
  "(bytes \<Rightarrow> string) \<Rightarrow> nat \<Rightarrow> nat \<Rightarrow> string \<Rightarrow> bytes \<Rightarrow> ec_error + CodeGroup" where
  "encodeChunk sha256 k m chunkId d =
     (case encode k m d of
        Inl e \<Rightarrow> Inl e
      | Inr encoded_blocks \<Rightarrow>
          Inr \<lparr> group_id = chunkId @ ''_group'',
                blocks = map (\<lambda>i. \<lparr> cc_chunk_id = chunkId @ ''_block_'' @ to_string i,
                                     block_index = int i,
                                     is_parity = (i \<ge> k),
                                     cc_data = encoded_blocks ! i,
                                     cc_checksum = sha256 (encoded_blocks ! i) \<rparr>)
                             [0..<length encoded_blocks],
                data_blocks = k,
                parity_blocks = m,
                original_size = int (length d) \<rparr>)"

definition removePadding :: "bytes \<Rightarrow> int \<Rightarrow> bytes" where
  "removePadding d originalSize =
     (if originalSize < 0 \<or> originalSize > int (length d) then d
      else take (nat originalSize) d)"

text \<open>\<open>decodeChunk\<close> sorts the blocks it was given by index, writes each one whose index
  is in range into its slot, marks the slot available, decodes and strips the padding.
  A later block with the same index overwrites an earlier one.\<close>

fun place_blocks :: "nat \<Rightarrow> CodedChunk list \<Rightarrow> bytes list \<times> bool list \<Rightarrow> bytes list \<times> bool list" where
  "place_blocks n [] acc = acc"
| "place_blocks n (c # cs) (bs, av) =
     (if block_index c \<ge> 0 \<and> block_index c < int n
      then place_blocks n cs (bs[nat (block_index c) := cc_data c], av[nat (block_index c) := True])
      else place_blocks n cs (bs, av))"

definition decodeChunk :: "nat \<Rightarrow> nat \<Rightarrow> CodeGroup \<Rightarrow> ec_error + bytes" where
  "decodeChunk k m g =
     (if blocks g = [] then Inl NoBlocks
      else let sorted_blocks = sort_key block_index (blocks g);
               total_blocks = data_blocks g + parity_blocks g
           in case place_blocks total_blocks sorted_blocks
                     (replicate total_blocks [], replicate total_blocks False) of
                (bs, availability) \<Rightarrow>
                  (case decode k m bs availability of
                     Inl e \<Rightarrow> Inl e
                   | Inr decoded_data \<Rightarrow> Inr (removePadding decoded_data (original_size g))))"

text \<open>A group from which the blocks with the given indices have been lost before decoding.\<close>

definition lose_blocks :: "int list \<Rightarrow> CodeGroup \<Rightarrow> CodeGroup" where
  "lose_blocks lost g = g\<lparr> blocks := filter (\<lambda>c. block_index c \<notin> set lost) (blocks g) \<rparr>"

subsection \<open>The tables as literals\<close>

text \<open>The values the loop writes: \<open>gf_seq n x\<close> lists the next \<open>n\<close> values of \<open>x\<close>.  The
  exponent table is these values in order; the logarithm table is their inverse, which is
  checked entry by entry instead of replaying 254 array updates.\<close>

fun gf_seq :: "nat \<Rightarrow> nat \<Rightarrow> nat list" where
  "gf_seq 0 x = []"
| "gf_seq (Suc n) x = gf_step x # gf_seq n (gf_step x)"

definition gf_seq_values :: "nat list" where "gf_seq_values = [
   2, 4, 8, 16, 32, 64, 128, 29, 58, 116, 232, 205, 135, 19, 38, 76, 152, 45, 90, 180, 117,
   234, 201, 143, 3, 6, 12, 24, 48, 96, 192, 157, 39, 78, 156, 37, 74, 148, 53, 106, 212,
   181, 119, 238, 193, 159, 35, 70, 140, 5, 10, 20, 40, 80, 160, 93, 186, 105, 210, 185,
   111, 222, 161, 95, 190, 97, 194, 153, 47, 94, 188, 101, 202, 137, 15, 30, 60, 120, 240,
   253, 231, 211, 187, 107, 214, 177, 127, 254, 225, 223, 163, 91, 182, 113, 226, 217, 175,
   67, 134, 17, 34, 68, 136, 13, 26, 52, 104, 208, 189, 103, 206, 129, 31, 62, 124, 248,
   237, 199, 147, 59, 118, 236, 197, 151, 51, 102, 204, 133, 23, 46, 92, 184, 109, 218,
   169, 79, 158, 33, 66, 132, 21, 42, 84, 168, 77, 154, 41, 82, 164, 85, 170, 73, 146, 57,
   114, 228, 213, 183, 115, 230, 209, 191, 99, 198, 145, 63, 126, 252, 229, 215, 179, 123,
   246, 241, 255, 227, 219, 171, 75, 150, 49, 98, 196, 149, 55, 110, 220, 165, 87, 174, 65,
   130, 25, 50, 100, 200, 141, 7, 14, 28, 56, 112, 224, 221, 167, 83, 166, 81, 162, 89,
   178, 121, 242, 249, 239, 195, 155, 43, 86, 172, 69, 138, 9, 18, 36, 72, 144, 61, 122,
   244, 245, 247, 243, 251, 235, 203, 139, 11, 22, 44, 88, 176, 125, 250, 233, 207, 131,
   27, 54, 108, 216, 173, 71, 142]"
definition gf_exp_values :: "u8 list" where "gf_exp_values = [
   1, 2, 4, 8, 16, 32, 64, 128, 29, 58, 116, 232, 205, 135, 19, 38, 76, 152, 45, 90, 180,
   117, 234, 201, 143, 3, 6, 12, 24, 48, 96, 192, 157, 39, 78, 156, 37, 74, 148, 53, 106,
   212, 181, 119, 238, 193, 159, 35, 70, 140, 5, 10, 20, 40, 80, 160, 93, 186, 105, 210,
   185, 111, 222, 161, 95, 190, 97, 194, 153, 47, 94, 188, 101, 202, 137, 15, 30, 60, 120,
   240, 253, 231, 211, 187, 107, 214, 177, 127, 254, 225, 223, 163, 91, 182, 113, 226, 217,
   175, 67, 134, 17, 34, 68, 136, 13, 26, 52, 104, 208, 189, 103, 206, 129, 31, 62, 124,
   248, 237, 199, 147, 59, 118, 236, 197, 151, 51, 102, 204, 133, 23, 46, 92, 184, 109,
   218, 169, 79, 158, 33, 66, 132, 21, 42, 84, 168, 77, 154, 41, 82, 164, 85, 170, 73, 146,
   57, 114, 228, 213, 183, 115, 230, 209, 191, 99, 198, 145, 63, 126, 252, 229, 215, 179,
   123, 246, 241, 255, 227, 219, 171, 75, 150, 49, 98, 196, 149, 55, 110, 220, 165, 87,
   174, 65, 130, 25, 50, 100, 200, 141, 7, 14, 28, 56, 112, 224, 221, 167, 83, 166, 81,
   162, 89, 178, 121, 242, 249, 239, 195, 155, 43, 86, 172, 69, 138, 9, 18, 36, 72, 144,
   61, 122, 244, 245, 247, 243, 251, 235, 203, 139, 11, 22, 44, 88, 176, 125, 250, 233,
   207, 131, 27, 54, 108, 216, 173, 71, 142, 1]"
definition gf_log_values :: "u8 list" where "gf_log_values = [
   0, 0, 1, 25, 2, 50, 26, 198, 3, 223, 51, 238, 27, 104, 199, 75, 4, 100, 224, 14, 52,
   141, 239, 129, 28, 193, 105, 248, 200, 8, 76, 113, 5, 138, 101, 47, 225, 36, 15, 33, 53,
   147, 142, 218, 240, 18, 130, 69, 29, 181, 194, 125, 106, 39, 249, 185, 201, 154, 9, 120,
   77, 228, 114, 166, 6, 191, 139, 98, 102, 221, 48, 253, 226, 152, 37, 179, 16, 145, 34,
   136, 54, 208, 148, 206, 143, 150, 219, 189, 241, 210, 19, 92, 131, 56, 70, 64, 30, 66,
   182, 163, 195, 72, 126, 110, 107, 58, 40, 84, 250, 133, 186, 61, 202, 94, 155, 159, 10,
   21, 121, 43, 78, 212, 229, 172, 115, 243, 167, 87, 7, 112, 192, 247, 140, 128, 99, 13,
   103, 74, 222, 237, 49, 197, 254, 24, 227, 165, 153, 119, 38, 184, 180, 124, 17, 68, 146,
   217, 35, 32, 137, 46, 55, 63, 209, 91, 149, 188, 207, 205, 144, 135, 151, 178, 220, 252,
   190, 97, 242, 86, 211, 171, 20, 42, 93, 158, 132, 60, 57, 83, 71, 109, 65, 162, 31, 45,
   67, 216, 183, 123, 164, 118, 196, 23, 73, 236, 127, 12, 111, 246, 108, 161, 59, 82, 41,
   157, 85, 170, 251, 96, 134, 177, 187, 204, 62, 90, 203, 89, 95, 176, 156, 169, 160, 81,
   11, 245, 22, 235, 122, 117, 44, 215, 79, 174, 213, 233, 230, 231, 173, 232, 116, 214,
   244, 234, 168, 80, 88, 175]"

section \<open>The platform: floating point and hash tables\<close>

text \<open>
  \<open>cpu_usage\<close>, \<open>memory_usage\<close> and the server loads are \<open>double\<close>s: a finite number, an
  infinity or a NaN.  How the floating-point unit rounds, what double the compiler makes
  of a decimal literal and of an integer, are inputs of the model: \<open>platform\<close> holds one
  operation for each arithmetic operator, conversion and comparison the source applies
  to doubles, and the functions below apply them in the order of the source.  The
  theorems hold for every platform, IEEE 754 binary64 with any rounding among them.

  The order in which an \<open>unordered_map\<close> is iterated is an input as well: \<open>table_rank\<close>
  ranks the keys, and a table is iterated by ascending rank (entries of equal rank in
  the order of the association list that holds them).
\<close>

datatype double = Finite real | PosInf | NegInf | NaN

record platform =
  fp_lit :: "real \<Rightarrow> double"
  fp_of_int :: "int \<Rightarrow> double"
  fp_of_size :: "nat \<Rightarrow> double"
  fp_add :: "double \<Rightarrow> double \<Rightarrow> double"
  fp_sub :: "double \<Rightarrow> double \<Rightarrow> double"
  fp_mul :: "double \<Rightarrow> double \<Rightarrow> double"
  fp_div :: "double \<Rightarrow> double \<Rightarrow> double"
  fp_sqrt :: "double \<Rightarrow> double"
  fp_less :: "double \<Rightarrow> double \<Rightarrow> bool"
  table_rank :: "string \<Rightarrow> nat"

definition iterate_table :: "platform \<Rightarrow> (string \<times> 'v) list \<Rightarrow> (string \<times> 'v) list" where
  "iterate_table pf table = sort_key (\<lambda>p. table_rank pf (fst p)) table"

subsection \<open>A platform for concrete runs\<close>

text \<open>Arithmetic without rounding on the finite values, the special values as in
  IEEE 754 (zero taken as positive), and tables iterated in the order of their lists.\<close>

fun exact_neg :: "double \<Rightarrow> double" where
  "exact_neg (Finite x) = Finite (- x)"
| "exact_neg PosInf = NegInf"
| "exact_neg NegInf = PosInf"
| "exact_neg NaN = NaN"

fun exact_add :: "double \<Rightarrow> double \<Rightarrow> double" where
  "exact_add (Finite x) (Finite y) = Finite (x + y)"
| "exact_add NaN b = NaN"
| "exact_add (Finite x) b = b"
| "exact_add PosInf b = (if b = NegInf \<or> b = NaN then NaN else PosInf)"
| "exact_add NegInf b = (if b = PosInf \<or> b = NaN then NaN else NegInf)"

definition exact_sub :: "double \<Rightarrow> double \<Rightarrow> double" where
  "exact_sub a b = exact_add a (exact_neg b)"

fun exact_less :: "double \<Rightarrow> double \<Rightarrow> bool" where
  "exact_less (Finite x) (Finite y) = (x < y)"
| "exact_less NaN b = False"
| "exact_less a NaN = False"
| "exact_less PosInf b = False"
| "exact_less a PosInf = True"
| "exact_less NegInf b = (b \<noteq> NegInf)"
| "exact_less a NegInf = False"

fun exact_mul :: "double \<Rightarrow> double \<Rightarrow> double" where
  "exact_mul (Finite x) (Finite y) = Finite (x * y)"
| "exact_mul NaN b = NaN"
| "exact_mul a NaN = NaN"
| "exact_mul a b =
     (if a = Finite 0 \<or> b = Finite 0 then NaN
      else if exact_less a (Finite 0) = exact_less b (Finite 0) then PosInf else NegInf)"

fun exact_div :: "double \<Rightarrow> double \<Rightarrow> double" where
  "exact_div (Finite x) (Finite y) =
     (if y \<noteq> 0 then Finite (x / y) else if x > 0 then PosInf else if x < 0 then NegInf else NaN)"
| "exact_div NaN b = NaN"
| "exact_div a NaN = NaN"
| "exact_div (Finite x) b = Finite 0"
| "exact_div a (Finite y) = (if exact_less a (Finite 0) = (y < 0) then PosInf else NegInf)"
| "exact_div a b = NaN"

fun exact_sqrt :: "double \<Rightarrow> double" where
  "exact_sqrt (Finite x) = (if x < 0 then NaN else Finite (sqrt x))"
| "exact_sqrt PosInf = PosInf"
| "exact_sqrt a = NaN"

definition exact_platform :: platform where
  "exact_platform =
     \<lparr> fp_lit = Finite, fp_of_int = (\<lambda>i. Finite (real_of_int i)), fp_of_size = (\<lambda>n. Finite (real n)),
       fp_add = exact_add, fp_sub = exact_sub, fp_mul = exact_mul, fp_div = exact_div,
       fp_sqrt = exact_sqrt, fp_less = exact_less, table_rank = (\<lambda>k. 0) \<rparr>"

section \<open>Master metadata (\<open>master/metadata_manager.cpp\<close>)\<close>

text \<open>
  \<open>std::unordered_set<std::string>\<close> is a list without duplicates: \<open>insert\<close> appends
  when the element is absent, \<open>erase\<close> removes it; iteration follows the list.  The
  \<open>unordered_map\<close>s \<open>chunks_\<close>, \<open>chunk_to_servers_\<close> and \<open>server_to_chunks_\<close> (written without the trailing underscore) are only
  looked up by key and are partial functions; \<open>servers_\<close> is also iterated
  (\<open>getHealthyServers\<close>) and is an association list, iterated in the order the platform
  gives.  \<open>files_\<close> plays no part in the chunk-server relation and is left out.
\<close>

definition set_insert :: "string \<Rightarrow> string list \<Rightarrow> string list" where
  "set_insert x xs = (if x \<in> set xs then xs else xs @ [x])"

definition set_erase :: "string \<Rightarrow> string list \<Rightarrow> string list" where
  "set_erase x xs = removeAll x xs"

record ChunkMetadata =
  chunk_id :: string
  server_locations :: "string list"
  cm_size :: int
  cm_checksum :: string
  cm_is_erasure_coded :: bool
  erasure_group_id :: string
  erasure_block_index :: int
  is_parity_block :: bool
  created_time :: int
  last_accessed_time :: int

record ServerMetadata =
  server_id :: string
  address :: string
  port :: int
  total_space :: int
  free_space :: int
  chunk_count :: int
  cpu_usage :: double
  memory_usage :: double
  is_healthy :: bool
  last_heartbeat :: int
  stored_chunks :: "string list"

record MetadataManager =
  chunks :: "string \<rightharpoonup> ChunkMetadata"
  servers :: "(string \<times> ServerMetadata) list"
  chunk_to_servers :: "string \<rightharpoonup> string list"
  server_to_chunks :: "string \<rightharpoonup> string list"

text \<open>\<open>index[k]\<close> default-constructs a missing entry: \<open>index[k].insert(v)\<close> and
  \<open>index[k].erase(v)\<close> both leave an entry for \<open>k\<close> behind.\<close>

definition index_get :: "(string \<rightharpoonup> string list) \<Rightarrow> string \<Rightarrow> string list" where
  "index_get m k = (case m k of None \<Rightarrow> [] | Some xs \<Rightarrow> xs)"

definition index_insert :: "(string \<rightharpoonup> string list) \<Rightarrow> string \<Rightarrow> string \<Rightarrow> (string \<rightharpoonup> string list)" where
  "index_insert m k v = m(k \<mapsto> set_insert v (index_get m k))"

definition index_erase :: "(string \<rightharpoonup> string list) \<Rightarrow> string \<Rightarrow> string \<Rightarrow> (string \<rightharpoonup> string list)" where
  "index_erase m k v = m(k \<mapsto> set_erase v (index_get m k))"

text \<open>The block "Update server metadata": \<open>servers.find(server_id)\<close>, and when found
  \<open>stored_chunks.insert/erase(chunk_id)\<close> followed by \<open>chunk_count = stored_chunks.size()\<close>.\<close>

definition server_insert_chunk ::
  "(string \<times> ServerMetadata) list \<Rightarrow> string \<Rightarrow> string \<Rightarrow> (string \<times> ServerMetadata) list" where
  "server_insert_chunk ss sid cid =
     (case map_of ss sid of
        None \<Rightarrow> ss
      | Some s \<Rightarrow>
          AList.update sid (s\<lparr> stored_chunks := set_insert cid (stored_chunks s),
                               chunk_count := int (length (set_insert cid (stored_chunks s))) \<rparr>) ss)"

definition server_erase_chunk ::
  "(string \<times> ServerMetadata) list \<Rightarrow> string \<Rightarrow> string \<Rightarrow> (string \<times> ServerMetadata) list" where
  "server_erase_chunk ss sid cid =
     (case map_of ss sid of
        None \<Rightarrow> ss
      | Some s \<Rightarrow>
          AList.update sid (s\<lparr> stored_chunks := set_erase cid (stored_chunks s),
                               chunk_count := int (length (set_erase cid (stored_chunks s))) \<rparr>) ss)"

text \<open>The loop body shared by \<open>addChunk\<close> and \<open>updateChunkLocations\<close>.\<close>

definition add_location :: "string \<Rightarrow> string \<Rightarrow> MetadataManager \<Rightarrow> MetadataManager" where
  "add_location cid sid md =
     md\<lparr> chunk_to_servers := index_insert (chunk_to_servers md) cid sid,
         server_to_chunks := index_insert (server_to_chunks md) sid cid,
         servers := server_insert_chunk (servers md) sid cid \<rparr>"

definition addChunk :: "MetadataManager \<Rightarrow> string \<Rightarrow> ChunkMetadata \<Rightarrow> bool \<times> MetadataManager" where
  "addChunk md cid metadata =
     (True, fold (add_location cid) (server_locations metadata)
                 (md\<lparr> chunks := (chunks md)(cid \<mapsto> metadata) \<rparr>))"

text \<open>\<open>removeChunkFromAllServers\<close>: for every server of the chunk's index entry, drop the
  chunk from the server's index entry and stored set; then erase the chunk's entry.\<close>

definition remove_from_server :: "string \<Rightarrow> string \<Rightarrow> MetadataManager \<Rightarrow> MetadataManager" where
  "remove_from_server cid sid md =
     md\<lparr> server_to_chunks := index_erase (server_to_chunks md) sid cid,
         servers := server_erase_chunk (servers md) sid cid \<rparr>"

definition removeChunkFromAllServers :: "MetadataManager \<Rightarrow> string \<Rightarrow> MetadataManager" where
  "removeChunkFromAllServers md cid =
     (case chunk_to_servers md cid of
        None \<Rightarrow> md
      | Some ss \<Rightarrow>
          (let md1 = fold (remove_from_server cid) ss md
           in md1\<lparr> chunk_to_servers := (chunk_to_servers md1)(cid := None) \<rparr>))"

definition removeChunk :: "MetadataManager \<Rightarrow> string \<Rightarrow> bool \<times> MetadataManager" where
  "removeChunk md cid =
     (case chunks md cid of
        None \<Rightarrow> (False, md)
      | Some _ \<Rightarrow>
          (let md1 = removeChunkFromAllServers md cid
           in (True, md1\<lparr> chunks := (chunks md1)(cid := None) \<rparr>)))"

definition getChunkMetadata :: "MetadataManager \<Rightarrow> string \<Rightarrow> ChunkMetadata option" where
  "getChunkMetadata md cid = chunks md cid"

definition updateChunkLocations ::
  "MetadataManager \<Rightarrow> string \<Rightarrow> string list \<Rightarrow> bool \<times> MetadataManager" where
  "updateChunkLocations md cid locations =
     (case chunks md cid of
        None \<Rightarrow> (False, md)
      | Some cm \<Rightarrow>
          (let md1 = removeChunkFromAllServers md cid;
               md2 = md1\<lparr> chunks := (chunks md1)(cid \<mapsto> cm\<lparr> server_locations := locations \<rparr>) \<rparr>
           in (True, fold (add_location cid) locations md2)))"


text \<open>\<open>removeAllChunksFromServer\<close>: for every chunk of the server's index entry, drop the
  server from the chunk's index entry and from its \<open>server_locations\<close>; then clear the
  server's entry.\<close>

definition remove_server_from_chunk :: "string \<Rightarrow> string \<Rightarrow> MetadataManager \<Rightarrow> MetadataManager" where
  "remove_server_from_chunk sid cid md =
     md\<lparr> chunk_to_servers := index_erase (chunk_to_servers md) cid sid,
         chunks := (case chunks md cid of
                       None \<Rightarrow> chunks md
                     | Some cm \<Rightarrow> (chunks md)(cid \<mapsto>
                                     cm\<lparr> server_locations := removeAll sid (server_locations cm) \<rparr>)) \<rparr>"

definition removeAllChunksFromServer :: "MetadataManager \<Rightarrow> string \<Rightarrow> MetadataManager" where
  "removeAllChunksFromServer md sid =
     (case server_to_chunks md sid of
        None \<Rightarrow> md
      | Some cs \<Rightarrow>
          (let md1 = fold (remove_server_from_chunk sid) cs md
           in md1\<lparr> server_to_chunks := (server_to_chunks md1)(sid \<mapsto> []) \<rparr>))"

definition unregisterServer :: "MetadataManager \<Rightarrow> string \<Rightarrow> bool \<times> MetadataManager" where
  "unregisterServer md sid =
     (case map_of (servers md) sid of
        None \<Rightarrow> (False, md)
      | Some _ \<Rightarrow>
          (let md1 = removeAllChunksFromServer md sid
           in (True, md1\<lparr> servers := AList.delete sid (servers md1),
                           server_to_chunks := (server_to_chunks md1)(sid := None) \<rparr>)))"

definition updateServerMetadata ::
  "MetadataManager \<Rightarrow> string \<Rightarrow> ServerMetadata \<Rightarrow> bool \<times> MetadataManager" where
  "updateServerMetadata md sid metadata =
     (case map_of (servers md) sid of
        None \<Rightarrow> (False, md)
      | Some _ \<Rightarrow> (True, md\<lparr> servers := AList.update sid metadata (servers md) \<rparr>))"

definition getServerMetadata :: "MetadataManager \<Rightarrow> string \<Rightarrow> ServerMetadata option" where
  "getServerMetadata md sid = map_of (servers md) sid"

definition getHealthyServers :: "platform \<Rightarrow> MetadataManager \<Rightarrow> ServerMetadata list" where
  "getHealthyServers pf md = map snd (filter (\<lambda>p. is_healthy (snd p)) (iterate_table pf (servers md)))"

definition addChunkToServer :: "MetadataManager \<Rightarrow> string \<Rightarrow> string \<Rightarrow> bool \<times> MetadataManager" where
  "addChunkToServer md cid sid =
     (let md1 = md\<lparr> chunk_to_servers := index_insert (chunk_to_servers md) cid sid,
                     server_to_chunks := index_insert (server_to_chunks md) sid cid \<rparr>;
          md2 = (case chunks md1 cid of
                   None \<Rightarrow> md1
                 | Some cm \<Rightarrow>
                     if sid \<in> set (server_locations cm) then md1
                     else md1\<lparr> chunks := (chunks md1)(cid \<mapsto>
                                  cm\<lparr> server_locations := server_locations cm @ [sid] \<rparr>) \<rparr>)
      in (True, md2\<lparr> servers := server_insert_chunk (servers md2) sid cid \<rparr>))"

definition removeChunkFromServer :: "MetadataManager \<Rightarrow> string \<Rightarrow> string \<Rightarrow> bool \<times> MetadataManager" where
  "removeChunkFromServer md cid sid =
     (let md1 = md\<lparr> chunk_to_servers := index_erase (chunk_to_servers md) cid sid,
                     server_to_chunks := index_erase (server_to_chunks md) sid cid \<rparr>;
          md2 = (case chunks md1 cid of
                   None \<Rightarrow> md1
                 | Some cm \<Rightarrow>
                     md1\<lparr> chunks := (chunks md1)(cid \<mapsto>
                            cm\<lparr> server_locations := removeAll sid (server_locations cm) \<rparr>) \<rparr>)
      in (True, md2\<lparr> servers := server_erase_chunk (servers md2) sid cid \<rparr>))"

definition getServersForChunk :: "MetadataManager \<Rightarrow> string \<Rightarrow> string list" where
  "getServersForChunk md cid = index_get (chunk_to_servers md) cid"

definition getChunksForServer :: "MetadataManager \<Rightarrow> string \<Rightarrow> string list" where
  "getChunksForServer md sid = index_get (server_to_chunks md) sid"

subsection \<open>The heartbeat handler's metadata update (\<open>MasterServer::SendHeartbeat\<close>)\<close>

record HeartbeatRequest =
  hb_server_id :: string
  hb_free_space :: int
  hb_chunk_count :: int
  hb_cpu_usage :: double
  hb_memory_usage :: double
  hb_stored_chunks :: "string list"

text \<open>The handler reads the server's record, overwrites the reported fields, rebuilds
  \<open>stored_chunks\<close> from the request alone and writes the record back with
  \<open>updateServerMetadata\<close>.  \<open>now\<close> is \<open>Utils::getCurrentTimestamp()\<close>.\<close>

definition heartbeat_update :: "MetadataManager \<Rightarrow> int \<Rightarrow> HeartbeatRequest \<Rightarrow> bool \<times> MetadataManager" where
  "heartbeat_update md now request =
     (case getServerMetadata md (hb_server_id request) of
        None \<Rightarrow> (False, md)
      | Some metadata \<Rightarrow>
          (let metadata1 = metadata\<lparr> free_space := hb_free_space request,
                                       chunk_count := hb_chunk_count request,
                                       cpu_usage := hb_cpu_usage request,
                                       memory_usage := hb_memory_usage request,
                                       last_heartbeat := now,
                                       is_healthy := True,
                                       stored_chunks := fold set_insert (hb_stored_chunks request) [] \<rparr>
           in (True, snd (updateServerMetadata md (hb_server_id request) metadata1))))"

subsection \<open>The three sides of the chunk-server relation\<close>

definition in_locations :: "MetadataManager \<Rightarrow> string \<Rightarrow> string \<Rightarrow> bool" where
  "in_locations md c s = (case chunks md c of None \<Rightarrow> False | Some cm \<Rightarrow> s \<in> set (server_locations cm))"

definition in_stored :: "MetadataManager \<Rightarrow> string \<Rightarrow> string \<Rightarrow> bool" where
  "in_stored md c s = (case map_of (servers md) s of None \<Rightarrow> False | Some sm \<Rightarrow> c \<in> set (stored_chunks sm))"

definition in_indices :: "MetadataManager \<Rightarrow> string \<Rightarrow> string \<Rightarrow> bool" where
  "in_indices md c s =
     (s \<in> set (index_get (chunk_to_servers md) c) \<and> c \<in> set (index_get (server_to_chunks md) s))"

definition in_c2s :: "MetadataManager \<Rightarrow> string \<Rightarrow> string \<Rightarrow> bool" where
  "in_c2s md c s = (s \<in> set (index_get (chunk_to_servers md) c))"

definition in_s2c :: "MetadataManager \<Rightarrow> string \<Rightarrow> string \<Rightarrow> bool" where
  "in_s2c md c s = (c \<in> set (index_get (server_to_chunks md) s))"

definition sides_agree :: "MetadataManager \<Rightarrow> bool" where
  "sides_agree md =
     (\<forall>c s. (in_locations md c s \<longleftrightarrow> in_stored md c s) \<and> (in_stored md c s \<longleftrightarrow> in_indices md c s))"

definition registered :: "MetadataManager \<Rightarrow> string \<Rightarrow> bool" where
  "registered md s = (map_of (servers md) s \<noteq> None)"


subsection \<open>A small master state\<close>

text \<open>One registered, healthy server \<open>s1\<close> and one known chunk \<open>c1\<close> without locations.\<close>

definition server_example :: ServerMetadata where
  "server_example =
     \<lparr> server_id = ''s1'', address = ''10.0.0.1'', port = 50052, total_space = 1000000000,
       free_space = 1000000000, chunk_count = 0, cpu_usage = Finite 0, memory_usage = Finite 0,
       is_healthy = True, last_heartbeat = 0, stored_chunks = [] \<rparr>"

definition chunk_example :: "string list \<Rightarrow> ChunkMetadata" where
  "chunk_example locs =
     \<lparr> chunk_id = ''c1'', server_locations = locs, cm_size = 0, cm_checksum = [],
       cm_is_erasure_coded = False, erasure_group_id = [], erasure_block_index = 0,
       is_parity_block = False, created_time = 0, last_accessed_time = 0 \<rparr>"

definition md_example :: MetadataManager where
  "md_example =
     \<lparr> chunks = [''c1'' \<mapsto> chunk_example []],
       servers = [(''s1'', server_example)],
       chunk_to_servers = Map.empty,
       server_to_chunks = [''s1'' \<mapsto> []] \<rparr>"

text \<open>A heartbeat of \<open>s1\<close> that reports an empty inventory.\<close>

definition hb_example :: HeartbeatRequest where
  "hb_example =
     \<lparr> hb_server_id = ''s1'', hb_free_space = 1000000000, hb_chunk_count = 0,
       hb_cpu_usage = Finite 0, hb_memory_usage = Finite 0, hb_stored_chunks = [] \<rparr>"

section \<open>Chunk allocator (\<open>master/chunk_allocator.cpp\<close>)\<close>

datatype AllocationStrategy = ROUND_ROBIN | LEAST_LOADED | RANDOM | ZONE_AWARE


definition CHUNK_SIZE :: int where
  "CHUNK_SIZE = 4 * 1024 * 1024"



record ChunkInfo =
  ci_chunk_id :: string
  server_addresses :: "string list"
  ci_size :: int
  ci_is_erasure_coded :: bool







definition calculateServerLoad :: "platform \<Rightarrow> ServerMetadata \<Rightarrow> double" where
  "calculateServerLoad pf server =
     (let storage_load = fp_sub pf (fp_lit pf 1.0)
                           (fp_div pf (fp_of_int pf (free_space server)) (fp_of_int pf (total_space server)));
          cpu_load = fp_div pf (cpu_usage server) (fp_lit pf 100.0);
          memory_load = fp_div pf (memory_usage server) (fp_lit pf 100.0)
      in fp_add pf (fp_add pf (fp_mul pf (fp_lit pf 0.5) storage_load) (fp_mul pf (fp_lit pf 0.3) cpu_load))
                   (fp_mul pf (fp_lit pf 0.2) memory_load))"




subsection \<open>The four selection strategies\<close>










subsection \<open>\<open>allocateServersForChunk\<close> and \<open>allocateChunks\<close>\<close>









subsection \<open>Rebalancing decision\<close>

text \<open>\<open>calculateClusterLoadVariance\<close>: \<open>std::accumulate\<close> adds from the left, starting at
  \<open>0.0\<close>; \<open>loads.size()\<close> is converted to a double for each division.\<close>

definition calculateClusterLoadVariance :: "platform \<Rightarrow> MetadataManager \<Rightarrow> double" where
  "calculateClusterLoadVariance pf md =
     (let healthy = getHealthyServers pf md
      in if length healthy < 2 then fp_lit pf 0.0
         else let loads = map (calculateServerLoad pf) healthy;
                  mean = fp_div pf (foldl (fp_add pf) (fp_lit pf 0.0) loads) (fp_of_size pf (length loads));
                  variance = foldl (\<lambda>v load. fp_add pf v (fp_mul pf (fp_sub pf load mean) (fp_sub pf load mean)))
                                   (fp_lit pf 0.0) loads
              in fp_sqrt pf (fp_div pf variance (fp_of_size pf (length loads))))"

text \<open>\<open>findOverloadedServers\<close> pairs every healthy server whose load exceeds 0.8 and that
  has at least one chunk in the index with its least recently accessed chunk; a server
  without chunks is passed over.  \<open>std::min_element\<close> returns the first minimum.\<close>

definition access_time :: "MetadataManager \<Rightarrow> string \<Rightarrow> int" where
  "access_time md cid = (case getChunkMetadata md cid of Some cm \<Rightarrow> last_accessed_time cm | None \<Rightarrow> 0)"

fun min_element :: "('a \<Rightarrow> int) \<Rightarrow> 'a \<Rightarrow> 'a list \<Rightarrow> 'a" where
  "min_element key best [] = best"
| "min_element key best (x # xs) = (if key x < key best then min_element key x xs else min_element key best xs)"

definition findOverloadedServers :: "platform \<Rightarrow> MetadataManager \<Rightarrow> (string \<times> string) list" where
  "findOverloadedServers pf md =
     concat (map (\<lambda>server.
                    if fp_less pf (fp_lit pf 0.8) (calculateServerLoad pf server)
                    then (case getChunksForServer md (server_id server) of
                            [] \<Rightarrow> []
                          | c # cs \<Rightarrow> [(server_id server, min_element (access_time md) c cs)])
                    else [])
                 (getHealthyServers pf md))"

definition shouldRebalance :: "platform \<Rightarrow> MetadataManager \<Rightarrow> bool" where
  "shouldRebalance pf md =
     (let variance = calculateClusterLoadVariance pf md
      in if fp_less pf (fp_lit pf 0.3) variance then True
         else if findOverloadedServers pf md \<noteq> [] then True
         else False)"

text \<open>The rule as the specification words it, computed on the platform: the population
  standard deviation of the healthy servers' loads exceeds 0.30, or some healthy
  server's load exceeds 0.80.\<close>

definition fp_sum :: "platform \<Rightarrow> double list \<Rightarrow> double" where
  "fp_sum pf xs = foldl (fp_add pf) (fp_lit pf 0.0) xs"

definition population_stddev :: "platform \<Rightarrow> double list \<Rightarrow> double" where
  "population_stddev pf xs =
     (let n = fp_of_size pf (length xs);
          mean = fp_div pf (fp_sum pf xs) n
      in fp_sqrt pf (fp_div pf (fp_sum pf (map (\<lambda>x. fp_mul pf (fp_sub pf x mean) (fp_sub pf x mean)) xs)) n))"

definition rebalance_rule :: "platform \<Rightarrow> MetadataManager \<Rightarrow> bool" where
  "rebalance_rule pf md =
     (fp_less pf (fp_lit pf 0.3) (population_stddev pf (map (calculateServerLoad pf) (getHealthyServers pf md))) \<or>
      (\<exists>server \<in> set (getHealthyServers pf md). fp_less pf (fp_lit pf 0.8) (calculateServerLoad pf server)))"

text \<open>A master with one healthy server whose disk is full and whose CPU and memory are
  saturated; in \<open>md_full_idle\<close> the index holds no chunk for it, in \<open>md_full_busy\<close> it
  holds one.\<close>

definition server_full :: ServerMetadata where
  "server_full =
     \<lparr> server_id = ''s1'', address = ''10.0.0.1'', port = 50052, total_space = 100,
       free_space = 0, chunk_count = 0, cpu_usage = Finite 100, memory_usage = Finite 100,
       is_healthy = True, last_heartbeat = 0, stored_chunks = [] \<rparr>"

definition md_full_idle :: MetadataManager where
  "md_full_idle =
     \<lparr> chunks = Map.empty, servers = [(''s1'', server_full)],
       chunk_to_servers = Map.empty, server_to_chunks = [''s1'' \<mapsto> []] \<rparr>"

definition md_full_busy :: MetadataManager where
  "md_full_busy =
     \<lparr> chunks = [''c1'' \<mapsto> chunk_example [''s1'']],
       servers = [(''s1'', server_full\<lparr> stored_chunks := [''c1''], chunk_count := 1 \<rparr>)],
       chunk_to_servers = [''c1'' \<mapsto> [''s1'']], server_to_chunks = [''s1'' \<mapsto> [''c1'']] \<rparr>"

subsection \<open>Well-formed server table\<close>

text \<open>\<open>servers_\<close> is an \<open>unordered_map\<close>, so its keys are distinct; and every path of the
  master that writes a server record (\<open>RegisterChunkServer\<close>, \<open>SendHeartbeat\<close>, loading
  the metadata file) stores under the key the record's own \<open>server_id\<close>.\<close>

definition server_ids_consistent :: "MetadataManager \<Rightarrow> bool" where
  "server_ids_consistent md =
     (distinct (map fst (servers md)) \<and> (\<forall>p \<in> set (servers md). server_id (snd p) = fst p))"






subsection \<open>What a placement looks like\<close>






text \<open>How many servers one selection of \<open>allocateChunks\<close> returns when \<open>wanted\<close> are asked for
  and \<open>available\<close> can be drawn from.\<close>

definition placed :: "AllocationStrategy \<Rightarrow> nat \<Rightarrow> nat \<Rightarrow> nat" where
  "placed strat wanted available = (if strat = ZONE_AWARE then 0 else min wanted available)"

section \<open>Chunk server (\<open>chunkserver/chunk_storage.cpp\<close>, \<open>chunkserver/chunk_server.cpp\<close>)\<close>

text \<open>
  The storage directory is a map from file names to contents: the data file of a chunk is
  named by its id, its sidecar by the id followed by \<open>.meta\<close>.  The JSON library is
  outside the program: \<open>render_sidecar\<close> and \<open>parse_sidecar\<close> are parameters, the second
  returning \<open>None\<close> where \<open>loadChunkMetadata\<close> returns false on a file it cannot parse.

  What the disk does to a write is an input.  \<open>Utils::writeFile\<close> opens an \<open>ofstream\<close>,
  writes, and returns \<open>good()\<close> before the stream is closed.  The stream either cannot be
  opened (the directory is untouched), or is opened (the file is created or truncated);
  then either all the bytes reach the file, or the disk takes only some content.  Bytes
  that fit the stream's buffer (\<open>stream_buffer\<close>, a size of the library) are only copied by
  \<open>write\<close>: \<open>good()\<close> is true, and a failure shows when the stream is closed, where nobody
  looks.  A longer write goes to the disk at once and its failure is reported.
\<close>

datatype write_outcome = WriteOk | OpenFails | WriteFails bytes

record io_outcomes =
  data_write :: write_outcome
  meta_write :: write_outcome
  unlink_ok :: bool
  stream_buffer :: nat

type_synonym directory = "string \<rightharpoonup> bytes"

definition writeFile ::
  "directory \<Rightarrow> string \<Rightarrow> bytes \<Rightarrow> write_outcome \<Rightarrow> nat \<Rightarrow> bool \<times> directory" where
  "writeFile dir path d outcome buffer =
     (case outcome of
        WriteOk \<Rightarrow> (True, dir(path \<mapsto> d))
      | OpenFails \<Rightarrow> (False, dir)
      | WriteFails partial \<Rightarrow> (length d \<le> buffer, dir(path \<mapsto> partial)))"

definition readFile :: "directory \<Rightarrow> string \<Rightarrow> bytes" where
  "readFile dir path = (case dir path of None \<Rightarrow> [] | Some d \<Rightarrow> d)"

definition deleteFile :: "directory \<Rightarrow> string \<Rightarrow> bool \<Rightarrow> bool \<times> directory" where
  "deleteFile dir path ok = (if ok \<and> dir path \<noteq> None then (True, dir(path := None)) else (False, dir))"

definition fileExists :: "directory \<Rightarrow> string \<Rightarrow> bool" where
  "fileExists dir path = (dir path \<noteq> None)"

record ChunkStorage =
  files :: directory
  chunk_checksums :: "string \<rightharpoonup> string"
  cs_stored_chunks :: "string list"

definition getChunkFilePath :: "string \<Rightarrow> string" where
  "getChunkFilePath cid = cid"

definition getChunkMetadataPath :: "string \<Rightarrow> string" where
  "getChunkMetadataPath cid = cid @ ''.meta''"

type_synonym sidecar_renderer = "string \<Rightarrow> string \<Rightarrow> bool \<Rightarrow> bool \<Rightarrow> int \<Rightarrow> bytes"
type_synonym sidecar_parser = "bytes \<Rightarrow> (string \<times> bool \<times> bool) option"

definition saveChunkMetadata ::
  "sidecar_renderer \<Rightarrow> directory \<Rightarrow> int \<Rightarrow> write_outcome \<Rightarrow> nat \<Rightarrow> string \<Rightarrow> string \<Rightarrow> bool
     \<Rightarrow> bool \<Rightarrow> bool \<times> directory" where
  "saveChunkMetadata render_sidecar dir now outcome buffer cid checksum enc ec =
     writeFile dir (getChunkMetadataPath cid) (render_sidecar cid checksum enc ec now) outcome buffer"

definition loadChunkMetadata ::
  "sidecar_parser \<Rightarrow> directory \<Rightarrow> string \<Rightarrow> (string \<times> bool \<times> bool) option" where
  "loadChunkMetadata parse_sidecar dir cid =
     (case dir (getChunkMetadataPath cid) of
        None \<Rightarrow> None
      | Some content \<Rightarrow> parse_sidecar content)"

text \<open>\<open>ChunkStorage::writeChunk\<close>.\<close>

definition writeChunk ::
  "(bytes \<Rightarrow> string) \<Rightarrow> sidecar_renderer \<Rightarrow> int \<Rightarrow> io_outcomes \<Rightarrow> ChunkStorage
     \<Rightarrow> string \<Rightarrow> bytes \<Rightarrow> bool \<Rightarrow> bool \<Rightarrow> bool \<times> ChunkStorage" where
  "writeChunk sha256 render_sidecar now io st cid d enc ec =
     (let file_path = getChunkFilePath cid;
          checksum = sha256 d
      in case writeFile (files st) file_path d (data_write io) (stream_buffer io) of
           (False, dir1) \<Rightarrow> (False, st\<lparr> files := dir1 \<rparr>)
         | (True, dir1) \<Rightarrow>
             (case saveChunkMetadata render_sidecar dir1 now (meta_write io) (stream_buffer io) cid
                     checksum enc ec of
                (False, dir2) \<Rightarrow> (False, st\<lparr> files := snd (deleteFile dir2 file_path (unlink_ok io)) \<rparr>)
              | (True, dir2) \<Rightarrow>
                  (True, st\<lparr> files := dir2,
                             chunk_checksums := (chunk_checksums st)(cid \<mapsto> checksum),
                             cs_stored_chunks := set_insert cid (cs_stored_chunks st) \<rparr>)))"

text \<open>\<open>ChunkStorage::readChunk\<close>: the empty vector stands for every failure.\<close>

definition readChunk ::
  "(bytes \<Rightarrow> string) \<Rightarrow> sidecar_parser \<Rightarrow> ChunkStorage \<Rightarrow> string \<Rightarrow> bytes" where
  "readChunk sha256 parse_sidecar st cid =
     (if cid \<notin> set (cs_stored_chunks st) then []
      else let d = readFile (files st) (getChunkFilePath cid)
           in if d = [] then []
              else case (case chunk_checksums st cid of
                           Some e \<Rightarrow> Some e
                         | None \<Rightarrow> map_option fst (loadChunkMetadata parse_sidecar (files st) cid)) of
                     None \<Rightarrow> d
                   | Some expected_checksum \<Rightarrow>
                       if sha256 d \<noteq> expected_checksum then [] else d)"

definition verifyChunkIntegrity ::
  "(bytes \<Rightarrow> string) \<Rightarrow> sidecar_parser \<Rightarrow> ChunkStorage \<Rightarrow> string \<Rightarrow> bool" where
  "verifyChunkIntegrity sha256 parse_sidecar st cid =
     (if cid \<notin> set (cs_stored_chunks st) then False
      else let d = readFile (files st) (getChunkFilePath cid)
           in if d = [] then False
              else let actual_checksum = sha256 d
                   in case chunk_checksums st cid of
                        None \<Rightarrow>
                          (case loadChunkMetadata parse_sidecar (files st) cid of
                             None \<Rightarrow> False
                           | Some (expected_checksum, _, _) \<Rightarrow> actual_checksum = expected_checksum)
                      | Some e \<Rightarrow> actual_checksum = e)"

subsection \<open>The \<open>WriteChunk\<close> and \<open>ReadChunk\<close> handlers\<close>

record ChunkServer =
  storage :: ChunkStorage
  bytes_written :: nat
  chunks_written :: nat
  bytes_read :: nat
  chunks_read :: nat

record WriteChunkRequest =
  wr_chunk_id :: string
  wr_data :: bytes
  wr_checksum :: string
  wr_is_encrypted :: bool
  wr_is_erasure_coded :: bool

record WriteChunkResponse =
  ws_success :: bool
  ws_stored_checksum :: string
  ws_message :: string

record ReadChunkRequest =
  rr_chunk_id :: string
  verify_integrity :: bool

record ReadChunkResponse =
  rs_success :: bool
  rs_data :: bytes
  rs_checksum :: string
  rs_message :: string

definition WriteChunk ::
  "(bytes \<Rightarrow> string) \<Rightarrow> sidecar_renderer \<Rightarrow> int \<Rightarrow> io_outcomes \<Rightarrow> ChunkServer
     \<Rightarrow> WriteChunkRequest \<Rightarrow> WriteChunkResponse \<times> ChunkServer" where
  "WriteChunk sha256 render_sidecar now io srv request =
     (let cid = wr_chunk_id request;
          d = wr_data request
      in if wr_checksum request \<noteq> [] \<and> sha256 d \<noteq> wr_checksum request
         then (\<lparr> ws_success = False, ws_stored_checksum = [], ws_message = ''Checksum mismatch'' \<rparr>, srv)
         else case writeChunk sha256 render_sidecar now io (storage srv) cid d
                     (wr_is_encrypted request) (wr_is_erasure_coded request) of
                (True, st1) \<Rightarrow>
                  (\<lparr> ws_success = True, ws_stored_checksum = sha256 d,
                     ws_message = ''Chunk written successfully'' \<rparr>,
                   srv\<lparr> storage := st1,
                        bytes_written := bytes_written srv + length d,
                        chunks_written := chunks_written srv + 1 \<rparr>)
              | (False, st1) \<Rightarrow>
                  (\<lparr> ws_success = False, ws_stored_checksum = [],
                     ws_message = ''Failed to write chunk to storage'' \<rparr>,
                   srv\<lparr> storage := st1 \<rparr>))"

definition ReadChunk ::
  "(bytes \<Rightarrow> string) \<Rightarrow> sidecar_parser \<Rightarrow> ChunkServer \<Rightarrow> ReadChunkRequest
     \<Rightarrow> ReadChunkResponse \<times> ChunkServer" where
  "ReadChunk sha256 parse_sidecar srv request =
     (let cid = rr_chunk_id request;
          d = readChunk sha256 parse_sidecar (storage srv) cid
      in if d = []
         then (\<lparr> rs_success = False, rs_data = [], rs_checksum = [],
                  rs_message = ''Chunk not found or corrupted'' \<rparr>, srv)
         else if verify_integrity request \<and> \<not> verifyChunkIntegrity sha256 parse_sidecar (storage srv) cid
         then (\<lparr> rs_success = False, rs_data = [], rs_checksum = [],
                  rs_message = ''Chunk integrity verification failed'' \<rparr>, srv)
         else (\<lparr> rs_success = True, rs_data = d, rs_checksum = sha256 d,
                  rs_message = ''Chunk read successfully'' \<rparr>,
               srv\<lparr> bytes_read := bytes_read srv + length d,
                    chunks_read := chunks_read srv + 1 \<rparr>))"

text \<open>The checksum recorded for a chunk: the entry of the in-memory index when there is
  one, otherwise the checksum of a sidecar that parses.\<close>

definition recorded_checksum :: "sidecar_parser \<Rightarrow> ChunkStorage \<Rightarrow> string \<Rightarrow> string option" where
  "recorded_checksum parse_sidecar st cid =
     (case chunk_checksums st cid of
        Some e \<Rightarrow> Some e
      | None \<Rightarrow> (case files st (getChunkMetadataPath cid) of
                   None \<Rightarrow> None
                 | Some content \<Rightarrow> map_option fst (parse_sidecar content)))"

subsection \<open>A small chunk server\<close>

text \<open>A stand-in digest and sidecar format for concrete runs: the digest is the decimal
  length of the data, the sidecar holds the digest's characters.\<close>

definition toy_digest :: "bytes \<Rightarrow> string" where
  "toy_digest d = to_string (length d)"

definition toy_render :: sidecar_renderer where
  "toy_render cid checksum enc ec now = map (\<lambda>c. of_nat (of_char c)) checksum"

definition toy_parse :: sidecar_parser where
  "toy_parse content = Some (map (\<lambda>b. char_of (unat b)) content, False, False)"

definition srv_empty :: ChunkServer where
  "srv_empty = \<lparr> storage = \<lparr> files = Map.empty, chunk_checksums = Map.empty, cs_stored_chunks = [] \<rparr>,
                 bytes_written = 0, chunks_written = 0, bytes_read = 0, chunks_read = 0 \<rparr>"

definition io_ok :: io_outcomes where
  "io_ok = \<lparr> data_write = WriteOk, meta_write = WriteOk, unlink_ok = True, stream_buffer = 8192 \<rparr>"

definition write_request :: "string \<Rightarrow> bytes \<Rightarrow> string \<Rightarrow> WriteChunkRequest" where
  "write_request cid d checksum =
     \<lparr> wr_chunk_id = cid, wr_data = d, wr_checksum = checksum, wr_is_encrypted = False,
       wr_is_erasure_coded = False \<rparr>"

text \<open>The server after chunk \<open>c1\<close> with the bytes 1, 2, 3 has been written.\<close>

definition srv_one :: ChunkServer where
  "srv_one = snd (WriteChunk toy_digest toy_render 0 io_ok srv_empty (write_request ''c1'' [1, 2, 3] ''3''))"

section \<open>Crypto: key manager and the AES-256-GCM wrapper\<close>

text \<open>
  \<open>crypto.h\<close>, \<open>crypto.cpp\<close>.  The OpenSSL calls are parameters: \<open>RAND_bytes\<close> is a
  source that either fails or yields bytes, and the GCM cipher is a pair of functions on
  key, IV, text and tag that may fail.  Keys are \<open>std::string\<close>s.
\<close>

definition KEY_SIZE :: nat where
  "KEY_SIZE = 32"

definition IV_SIZE :: nat where
  "IV_SIZE = 12"

definition TAG_SIZE :: nat where
  "TAG_SIZE = 16"

record rand_source =
  rand_ok :: bool
  rand_byte :: "nat \<Rightarrow> u8"

definition RAND_bytes :: "rand_source \<Rightarrow> nat \<Rightarrow> bytes option" where
  "RAND_bytes r n = (if rand_ok r then Some (map (rand_byte r) [0..<n]) else None)"

record gcm_cipher =
  gcm_seal :: "string \<Rightarrow> bytes \<Rightarrow> bytes \<Rightarrow> (bytes \<times> bytes) option"
  gcm_open :: "string \<Rightarrow> bytes \<Rightarrow> bytes \<Rightarrow> bytes \<Rightarrow> bytes option"

text \<open>\<open>ss << std::hex << std::setfill('0') << std::setw(2) << static_cast<int>(byte)\<close>.\<close>

definition hex_digit :: "nat \<Rightarrow> char" where
  "hex_digit n = ''0123456789abcdef'' ! n"

definition hex_byte :: "u8 \<Rightarrow> string" where
  "hex_byte b = [hex_digit (unat b div 16), hex_digit (unat b mod 16)]"

definition generateRandomKey :: "rand_source \<Rightarrow> string" where
  "generateRandomKey r =
     (case RAND_bytes r KEY_SIZE of
        None \<Rightarrow> []
      | Some key \<Rightarrow> concat (map hex_byte key))"

definition generateRandomIV :: "rand_source \<Rightarrow> bytes" where
  "generateRandomIV r =
     (case RAND_bytes r IV_SIZE of
        None \<Rightarrow> replicate IV_SIZE 0
      | Some iv \<Rightarrow> iv)"

definition encrypt :: "gcm_cipher \<Rightarrow> rand_source \<Rightarrow> bytes \<Rightarrow> string \<Rightarrow> bytes" where
  "encrypt gcm r plaintext key =
     (if length key \<noteq> KEY_SIZE then []
      else
        let iv = generateRandomIV r
        in case gcm_seal gcm key iv plaintext of
             None \<Rightarrow> []
           | Some (ciphertext, tag) \<Rightarrow> iv @ ciphertext @ tag)"

definition decrypt :: "gcm_cipher \<Rightarrow> bytes \<Rightarrow> string \<Rightarrow> bytes" where
  "decrypt gcm ciphertext key =
     (if length key \<noteq> KEY_SIZE \<or> length ciphertext < IV_SIZE + TAG_SIZE then []
      else
        let iv = take IV_SIZE ciphertext;
            encrypted = take (length ciphertext - IV_SIZE - TAG_SIZE) (drop IV_SIZE ciphertext);
            tag = drop (length ciphertext - TAG_SIZE) ciphertext
        in case gcm_open gcm key iv encrypted tag of
             None \<Rightarrow> []
           | Some plaintext \<Rightarrow> plaintext)"

record KeyManager =
  keys :: "string \<rightharpoonup> string"

definition generateKey :: "rand_source \<Rightarrow> string" where
  "generateKey r = generateRandomKey r"

definition storeKey :: "KeyManager \<Rightarrow> string \<Rightarrow> string \<Rightarrow> KeyManager" where
  "storeKey km keyId key = km\<lparr> keys := (keys km)(keyId \<mapsto> key) \<rparr>"

definition getKey :: "KeyManager \<Rightarrow> string \<Rightarrow> string" where
  "getKey km keyId = (case keys km keyId of Some key \<Rightarrow> key | None \<Rightarrow> [])"

definition hasKey :: "KeyManager \<Rightarrow> string \<Rightarrow> bool" where
  "hasKey km keyId = (keys km keyId \<noteq> None)"

definition encryptChunk :: "gcm_cipher \<Rightarrow> rand_source \<Rightarrow> KeyManager \<Rightarrow> bytes \<Rightarrow> string \<Rightarrow> bytes" where
  "encryptChunk gcm r km chunkData keyId =
     (let key = getKey km keyId
      in if key = [] then [] else encrypt gcm r chunkData key)"

definition decryptChunk :: "gcm_cipher \<Rightarrow> KeyManager \<Rightarrow> bytes \<Rightarrow> string \<Rightarrow> bytes" where
  "decryptChunk gcm km encryptedData keyId =
     (let key = getKey km keyId
      in if key = [] then [] else decrypt gcm encryptedData key)"

text \<open>
  The key step of \<open>MasterServer::CreateFile\<close> for a file with encryption enabled, and
  the encryption step of the upload loop of \<open>Uploader::uploadFile\<close> for one slice
  (\<open>None\<close> is \<open>return false\<close>).
\<close>

definition CreateFile_key :: "rand_source \<Rightarrow> KeyManager \<Rightarrow> string \<Rightarrow> KeyManager" where
  "CreateFile_key r km file_id = storeKey km (file_id @ ''_key'') (generateKey r)"

definition upload_encrypt_slice ::
  "gcm_cipher \<Rightarrow> rand_source \<Rightarrow> KeyManager \<Rightarrow> string \<Rightarrow> bytes \<Rightarrow> bytes option" where
  "upload_encrypt_slice gcm r km file_id chunk_data =
     (let key_id = file_id @ ''_key''
      in if \<not> hasKey km key_id then None
         else
           let encrypted = encryptChunk gcm r km chunk_data key_id
           in if encrypted = [] then None else Some encrypted)"

section \<open>Client (\<open>client/client.cpp\<close>)\<close>

subsection \<open>\<open>CacheManager\<close>\<close>

text \<open>
  The table is an \<open>unordered_map\<close>; the list holds its entries in the order in which the
  table iterates over them, which the language leaves open (a new key goes to the end
  here).  \<open>max_size_\<close> and \<open>total_size_\<close> are \<open>size_t\<close>.
\<close>

record CacheEntry =
  ce_data :: bytes
  last_accessed :: int
  ce_size :: "64 word"

record CacheManager =
  max_size :: "64 word"
  total_size :: "64 word"
  cache :: "(string \<times> CacheEntry) list"
  cache_hits :: int
  cache_misses :: int

definition new_CacheManager :: "nat \<Rightarrow> CacheManager" where
  "new_CacheManager max_cache_size_mb =
     \<lparr> max_size = of_nat max_cache_size_mb * 1024 * 1024, total_size = 0, cache = [],
       cache_hits = 0, cache_misses = 0 \<rparr>"

definition oldest_entry :: "(string \<times> CacheEntry) \<Rightarrow> (string \<times> CacheEntry) list \<Rightarrow> string \<times> CacheEntry" where
  "oldest_entry first entries =
     fold (\<lambda>it oldest. if last_accessed (snd it) < last_accessed (snd oldest) then it else oldest)
          entries first"

definition evictLRU :: "CacheManager \<Rightarrow> CacheManager" where
  "evictLRU cm =
     (case cache cm of
        [] \<Rightarrow> cm
      | first # rest \<Rightarrow>
          let oldest = oldest_entry first (first # rest)
          in cm\<lparr> total_size := total_size cm - ce_size (snd oldest),
                 cache := AList.delete (fst oldest) (cache cm) \<rparr>)"

text \<open>\<open>while (total_size_ + data.size() > max_size_ && !cache_.empty()) evictLRU();\<close>\<close>

function evict_loop :: "64 word \<Rightarrow> CacheManager \<Rightarrow> CacheManager" where
  "evict_loop n cm =
     (if total_size cm + n > max_size cm \<and> cache cm \<noteq> [] then evict_loop n (evictLRU cm) else cm)"
  by pat_completeness auto
termination
proof (relation "measure (\<lambda>(n, cm). length (cache cm))")
  fix n :: "64 word" and cm :: CacheManager
  assume "max_size cm < total_size cm + n \<and> cache cm \<noteq> []"
  then obtain first rest where c: "cache cm = first # rest"
    by (cases "cache cm") auto
  define oldest where "oldest = oldest_entry first (first # rest)"
  have "fold (\<lambda>it oldest. if last_accessed (snd it) < last_accessed (snd oldest) then it else oldest)
          entries x \<in> insert x (set entries)" for x and entries :: "(string \<times> CacheEntry) list"
    by (induction entries arbitrary: x) auto
  from this [of "first # rest" first] have mem: "oldest \<in> set (first # rest)"
    unfolding oldest_def oldest_entry_def by simp
  have "length (filter (\<lambda>(k, v). fst oldest \<noteq> k) (first # rest)) < length (first # rest)"
    by (rule length_filter_less [OF mem]) (simp add: case_prod_beta)
  then have "length (AList.delete (fst oldest) (first # rest)) < length (first # rest)"
    by (simp only: AList.delete_eq)
  with c show "((n, evictLRU cm), (n, cm)) \<in> measure (\<lambda>(n, cm). length (cache cm))"
    by (simp add: evictLRU_def Let_def oldest_def)
qed simp

declare evict_loop.simps [simp del]

definition put :: "int \<Rightarrow> CacheManager \<Rightarrow> string \<Rightarrow> bytes \<Rightarrow> CacheManager" where
  "put now cm cid d =
     (case map_of (cache cm) cid of
        Some entry \<Rightarrow>
          cm\<lparr> total_size := total_size cm - ce_size entry + of_nat (length d),
              cache := AList.update cid
                         \<lparr> ce_data = d, last_accessed = now, ce_size = of_nat (length d) \<rparr> (cache cm) \<rparr>
      | None \<Rightarrow>
          let cm1 = evict_loop (of_nat (length d)) cm
          in cm1\<lparr> total_size := total_size cm1 + of_nat (length d),
                  cache := AList.update cid
                             \<lparr> ce_data = d, last_accessed = now, ce_size = of_nat (length d) \<rparr> (cache cm1) \<rparr>)"

definition get :: "int \<Rightarrow> CacheManager \<Rightarrow> string \<Rightarrow> bytes \<times> CacheManager" where
  "get now cm cid =
     (case map_of (cache cm) cid of
        Some entry \<Rightarrow>
          (ce_data entry,
           cm\<lparr> cache_hits := cache_hits cm + 1,
               cache := AList.update cid (entry\<lparr> last_accessed := now \<rparr>) (cache cm) \<rparr>)
      | None \<Rightarrow> ([], cm\<lparr> cache_misses := cache_misses cm + 1 \<rparr>))"

definition contains :: "CacheManager \<Rightarrow> string \<Rightarrow> bool" where
  "contains cm cid = (map_of (cache cm) cid \<noteq> None)"

subsection \<open>The client's surroundings\<close>

text \<open>
  What the client talks to.  The chunk servers are reached by address; an address with no
  server behind it, and a reply that does not come back with status OK, make the call
  fail for the client (a lost reply after the server has done the work is included).  The
  clocks, the outcome of each write on a server's disk, the random source of each
  encryption, SHA-256, the sidecar format and the cipher are inputs.  The client holds its
  cache and the process's key manager; \<open>DFSClient\<close> always gives the uploader and the
  downloader a cache manager.
\<close>

record client_env =
  e_sha256 :: "bytes \<Rightarrow> string"
  e_render :: sidecar_renderer
  e_parse :: sidecar_parser
  e_gcm :: gcm_cipher
  e_rand :: "string \<Rightarrow> rand_source"
  e_server_clock :: "string \<Rightarrow> string \<Rightarrow> int"
  e_server_io :: "string \<Rightarrow> string \<Rightarrow> io_outcomes"
  e_write_reply :: "string \<Rightarrow> string \<Rightarrow> bool"
  e_read_reply :: "string \<Rightarrow> string \<Rightarrow> bool"
  e_cache_clock :: "string \<Rightarrow> int"

record world =
  servers_at :: "string \<rightharpoonup> ChunkServer"
  cache_manager :: CacheManager
  key_manager :: KeyManager

subsection \<open>\<open>Uploader\<close>\<close>

text \<open>\<open>Uploader::splitFileIntoChunks\<close>; the chunk size is the constant \<open>CHUNK_SIZE\<close>.\<close>

function split_loop :: "bytes \<Rightarrow> nat \<Rightarrow> bytes list \<Rightarrow> bytes list" where
  "split_loop file_data i acc =
     (if i < length file_data
      then let actual_chunk_size = min (nat CHUNK_SIZE) (length file_data - i);
               chunk = take actual_chunk_size (drop i file_data)
           in split_loop file_data (i + nat CHUNK_SIZE) (acc @ [chunk])
      else acc)"
  by pat_completeness auto
termination
  by (relation "measure (\<lambda>(file_data, i, acc). length file_data - i)")
     (simp_all add: CHUNK_SIZE_def)

declare split_loop.simps [simp del]

definition splitFileIntoChunks :: "bytes \<Rightarrow> bytes list" where
  "splitFileIntoChunks file_data = split_loop file_data 0 []"

text \<open>The loop of \<open>Uploader::uploadChunk\<close> over the server addresses, and the function.\<close>

fun upload_to_servers ::
  "client_env \<Rightarrow> string \<Rightarrow> bytes \<Rightarrow> bool \<Rightarrow> string list \<Rightarrow> (string \<rightharpoonup> ChunkServer) \<Rightarrow> bool
     \<Rightarrow> bool \<times> (string \<rightharpoonup> ChunkServer)" where
  "upload_to_servers env cid d is_encrypted [] net success = (success, net)"
| "upload_to_servers env cid d is_encrypted (server_address # rest) net success =
     (case net server_address of
        None \<Rightarrow> upload_to_servers env cid d is_encrypted rest net success
      | Some srv \<Rightarrow>
          let request = \<lparr> wr_chunk_id = cid, wr_data = d, wr_checksum = e_sha256 env d,
                          wr_is_encrypted = is_encrypted, wr_is_erasure_coded = False \<rparr>;
              (response, srv1) = WriteChunk (e_sha256 env) (e_render env)
                                   (e_server_clock env server_address cid)
                                   (e_server_io env server_address cid) srv request
          in upload_to_servers env cid d is_encrypted rest (net(server_address \<mapsto> srv1))
               (success \<or> (e_write_reply env server_address cid \<and> ws_success response)))"

definition uploadChunk ::
  "client_env \<Rightarrow> world \<Rightarrow> string \<Rightarrow> bytes \<Rightarrow> string list \<Rightarrow> bool \<Rightarrow> bool \<times> world" where
  "uploadChunk env w cid d addresses is_encrypted =
     (if addresses = [] then (False, w)
      else
        let (success, net1) = upload_to_servers env cid d is_encrypted addresses
                                (servers_at w) False;
            w1 = w\<lparr> servers_at := net1 \<rparr>
        in if success
           then (True, w1\<lparr> cache_manager := put (e_cache_clock env cid) (cache_manager w1) cid d \<rparr>)
           else (False, w1))"


text \<open>
  \<open>Uploader::uploadFile\<close>.  The master's answers are inputs: the file id of a successful
  \<open>CreateFile\<close>, the chunk list of a successful \<open>AllocateChunks\<close>, and whether
  \<open>CompleteUpload\<close> succeeds (\<open>None\<close> and \<open>False\<close> stand for a failed call).  The encryption
  step of the loop is \<open>upload_encrypt_slice\<close>.
\<close>

record master_replies =
  create_reply :: "string option"
  alloc_reply :: "ChunkInfo list option"
  complete_reply :: bool

fun upload_loop ::
  "client_env \<Rightarrow> string \<Rightarrow> bool \<Rightarrow> bytes list \<Rightarrow> nat \<Rightarrow> ChunkInfo list \<Rightarrow> world \<Rightarrow> bool \<times> world" where
  "upload_loop env file_id enable_encryption chunk_list i [] w = (True, w)"
| "upload_loop env file_id enable_encryption chunk_list i (chunk_info # rest) w =
     (if i \<ge> length chunk_list then (False, w)
      else
        case (if enable_encryption
              then upload_encrypt_slice (e_gcm env) (e_rand env (ci_chunk_id chunk_info))
                     (key_manager w) file_id (chunk_list ! i)
              else Some (chunk_list ! i)) of
          None \<Rightarrow> (False, w)
        | Some chunk_data \<Rightarrow>
            let (ok, w1) = uploadChunk env w (ci_chunk_id chunk_info) chunk_data
                             (server_addresses chunk_info) enable_encryption
            in if ok then upload_loop env file_id enable_encryption chunk_list (i + 1) rest w1
               else (False, w1))"

definition uploadFile ::
  "client_env \<Rightarrow> master_replies \<Rightarrow> world \<Rightarrow> bytes \<Rightarrow> bool \<Rightarrow> bool \<Rightarrow> bool \<times> world" where
  "uploadFile env master w file_data enable_encryption enable_erasure_coding =
     (if file_data = [] then (False, w)
      else case create_reply master of
        None \<Rightarrow> (False, w)
      | Some file_id \<Rightarrow>
          (case alloc_reply master of
             None \<Rightarrow> (False, w)
           | Some allocated_chunks \<Rightarrow>
               let chunk_list = splitFileIntoChunks file_data
               in if length chunk_list \<noteq> length allocated_chunks then (False, w)
                  else
                    let (ok, w1) = upload_loop env file_id enable_encryption chunk_list 0 allocated_chunks w
                    in if \<not> ok then (False, w1)
                       else (complete_reply master, w1)))"

subsection \<open>\<open>Downloader\<close>\<close>

text \<open>The loop of \<open>Downloader::downloadChunk\<close> over the server addresses, and the function;
  the empty vector stands for failure.\<close>

fun download_from_servers :: "client_env \<Rightarrow> string \<Rightarrow> string list \<Rightarrow> world \<Rightarrow> bytes \<times> world" where
  "download_from_servers env cid [] w = ([], w)"
| "download_from_servers env cid (server_address # rest) w =
     (case servers_at w server_address of
        None \<Rightarrow> download_from_servers env cid rest w
      | Some srv \<Rightarrow>
          let (response, srv1) = ReadChunk (e_sha256 env) (e_parse env) srv
                                   \<lparr> rr_chunk_id = cid, verify_integrity = True \<rparr>;
              w1 = w\<lparr> servers_at := (servers_at w)(server_address \<mapsto> srv1) \<rparr>
          in if e_read_reply env server_address cid \<and> rs_success response
             then let d = rs_data response
                  in if e_sha256 env d = rs_checksum response
                     then (d, w1\<lparr> cache_manager := put (e_cache_clock env cid) (cache_manager w1) cid d \<rparr>)
                     else download_from_servers env cid rest w1
             else download_from_servers env cid rest w1)"

definition downloadChunk :: "client_env \<Rightarrow> world \<Rightarrow> string \<Rightarrow> string list \<Rightarrow> bytes \<times> world" where
  "downloadChunk env w cid addresses =
     (if contains (cache_manager w) cid
      then let (d, cm) = get (e_cache_clock env cid) (cache_manager w) cid
           in (d, w\<lparr> cache_manager := cm \<rparr>)
      else download_from_servers env cid addresses w)"

definition assembleChunks :: "bytes list \<Rightarrow> bytes" where
  "assembleChunks chunk_list = fold (\<lambda>chunk assembled_data. assembled_data @ chunk) chunk_list []"

text \<open>
  \<open>Downloader::downloadFile\<close>.  The answer of \<open>GetFileInfo\<close> is an input (\<open>None\<close> when the
  call fails or the file is not found).  The result is the data handed to
  \<open>Utils::writeFile\<close> for the local file, \<open>None\<close> when the function returns false before.
\<close>

record FileInfo =
  fi_size :: int
  fi_chunks :: "ChunkInfo list"
  fi_is_encrypted :: bool
  fi_encryption_key_id :: string

fun download_loop ::
  "client_env \<Rightarrow> FileInfo \<Rightarrow> ChunkInfo list \<Rightarrow> bytes list \<Rightarrow> world \<Rightarrow> bytes list option \<times> world" where
  "download_loop env file_info [] chunk_list w = (Some chunk_list, w)"
| "download_loop env file_info (chunk_info # rest) chunk_list w =
     (let (chunk_data, w1) = downloadChunk env w (ci_chunk_id chunk_info) (server_addresses chunk_info)
      in if chunk_data = [] then (None, w1)
         else if fi_is_encrypted file_info
         then if hasKey (key_manager w1) (fi_encryption_key_id file_info)
              then let decrypted = decryptChunk (e_gcm env) (key_manager w1) chunk_data
                                     (fi_encryption_key_id file_info)
                   in if decrypted = [] then (None, w1)
                      else download_loop env file_info rest (chunk_list @ [decrypted]) w1
              else (None, w1)
         else download_loop env file_info rest (chunk_list @ [chunk_data]) w1)"

definition downloadFile :: "client_env \<Rightarrow> world \<Rightarrow> FileInfo option \<Rightarrow> bytes option \<times> world" where
  "downloadFile env w info_reply =
     (case info_reply of
        None \<Rightarrow> (None, w)
      | Some file_info \<Rightarrow>
          (case download_loop env file_info (fi_chunks file_info) [] w of
             (None, w1) \<Rightarrow> (None, w1)
           | (Some chunk_list, w1) \<Rightarrow> (Some (assembleChunks chunk_list), w1)))"

subsection \<open>What the cache and the servers hold for a chunk\<close>

definition cached_data :: "CacheManager \<Rightarrow> string \<Rightarrow> bytes option" where
  "cached_data cm cid = map_option ce_data (map_of (cache cm) cid)"

text \<open>A server is consistent with bytes \<open>b\<close> for a chunk when, if it lists the chunk as stored,
  the chunk's data file holds \<open>b\<close>.\<close>

definition server_holds :: "ChunkServer \<Rightarrow> string \<Rightarrow> bytes \<Rightarrow> bool" where
  "server_holds srv cid b =
     (cid \<in> set (cs_stored_chunks (storage srv)) \<longrightarrow>
        files (storage srv) (getChunkFilePath cid) = Some b)"

definition holds :: "world \<Rightarrow> string \<Rightarrow> bytes \<Rightarrow> bool" where
  "holds w cid b =
     ((cached_data (cache_manager w) cid = None \<or> cached_data (cache_manager w) cid = Some b) \<and>
      (\<forall>a srv. servers_at w a = Some srv \<longrightarrow> server_holds srv cid b))"

definition absent :: "world \<Rightarrow> string \<Rightarrow> bool" where
  "absent w cid =
     (\<forall>a srv. servers_at w a = Some srv \<longrightarrow> cid \<notin> set (cs_stored_chunks (storage srv)))"

definition unavailable :: "world \<Rightarrow> string \<Rightarrow> bool" where
  "unavailable w cid = (\<not> contains (cache_manager w) cid \<and> absent w cid)"

text \<open>Two states of a server agree on a chunk: it is stored in both or in neither, and
  its data file is the same.\<close>

definition same_for :: "string \<Rightarrow> ChunkServer \<Rightarrow> ChunkServer \<Rightarrow> bool" where
  "same_for cid srv srv1 =
     ((cid \<in> set (cs_stored_chunks (storage srv1)) \<longleftrightarrow> cid \<in> set (cs_stored_chunks (storage srv))) \<and>
      files (storage srv1) (getChunkFilePath cid) = files (storage srv) (getChunkFilePath cid))"

definition net_same_for :: "string \<Rightarrow> (string \<rightharpoonup> ChunkServer) \<Rightarrow> (string \<rightharpoonup> ChunkServer) \<Rightarrow> bool" where
  "net_same_for cid net net1 = (\<forall>a. rel_option (same_for cid) (net a) (net1 a))"

definition storage_unchanged :: "world \<Rightarrow> world \<Rightarrow> bool" where
  "storage_unchanged w w1 =
     ((\<forall>a. rel_option (\<lambda>srv srv1. storage srv1 = storage srv) (servers_at w a) (servers_at w1 a)) \<and>
      key_manager w1 = key_manager w)"

text \<open>The bytes the upload loop sends for a slice.\<close>

definition stored_form ::
  "client_env \<Rightarrow> KeyManager \<Rightarrow> string \<Rightarrow> bool \<Rightarrow> string \<Rightarrow> bytes \<Rightarrow> bytes option" where
  "stored_form env km file_id enable_encryption cid chunk =
     (if enable_encryption
      then upload_encrypt_slice (e_gcm env) (e_rand env cid) km file_id chunk
      else Some chunk)"

text \<open>The cipher gives back what it sealed, and its tags have the size the wrapper cuts off.\<close>

definition gcm_sound :: "gcm_cipher \<Rightarrow> bool" where
  "gcm_sound g =
     (\<forall>key iv p ct tag. gcm_seal g key iv p = Some (ct, tag) \<longrightarrow>
        length tag = TAG_SIZE \<and> gcm_open g key iv ct tag = Some p)"

text \<open>No chunk id of the list is the sidecar name of another one.\<close>

definition no_sidecar_clash :: "string list \<Rightarrow> bool" where
  "no_sidecar_clash ids = (\<forall>c \<in> set ids. \<forall>c' \<in> set ids. c' \<noteq> getChunkMetadataPath c)"

subsection \<open>A small cluster\<close>

definition toy_gcm :: gcm_cipher where
  "toy_gcm = \<lparr> gcm_seal = (\<lambda>key iv p. Some (p, replicate TAG_SIZE 0)),
               gcm_open = (\<lambda>key iv ct tag. Some ct) \<rparr>"

definition toy_env :: client_env where
  "toy_env = \<lparr> e_sha256 = toy_digest, e_render = toy_render, e_parse = toy_parse, e_gcm = toy_gcm,
               e_rand = (\<lambda>cid. \<lparr> rand_ok = True, rand_byte = (\<lambda>i. 0) \<rparr>),
               e_server_clock = (\<lambda>a cid. 0), e_server_io = (\<lambda>a cid. io_ok),
               e_write_reply = (\<lambda>a cid. True), e_read_reply = (\<lambda>a cid. True),
               e_cache_clock = (\<lambda>cid. 0) \<rparr>"

text \<open>One server at address \<open>s1\<close> on which the given chunks have been written, an empty
  cache of 100 MB and the given keys.\<close>

definition store_all :: "(string \<times> bytes) list \<Rightarrow> ChunkServer \<Rightarrow> ChunkServer" where
  "store_all cs srv =
     fold (\<lambda>(cid, d) srv. snd (WriteChunk toy_digest toy_render 0 io_ok srv (write_request cid d []))) cs srv"

definition world_with :: "(string \<times> bytes) list \<Rightarrow> (string \<rightharpoonup> string) \<Rightarrow> world" where
  "world_with cs ks =
     \<lparr> servers_at = [''s1'' \<mapsto> store_all cs srv_empty], cache_manager = new_CacheManager 100,
       key_manager = \<lparr> keys = ks \<rparr> \<rparr>"

text \<open>The six blocks of the group that \<open>encode 4 2\<close> makes of the bytes 1, 2, 3, 4, under
  the ids the allocator gives the blocks of group 0 of file \<open>f\<close>, and the file's entry.\<close>

definition ec_blocks :: "(string \<times> bytes) list" where
  "ec_blocks =
     [(''f_group_0_block_0'', [1]), (''f_group_0_block_1'', [2]), (''f_group_0_block_2'', [3]),
      (''f_group_0_block_3'', [4]), (''f_group_0_block_4'', [113]), (''f_group_0_block_5'', [204])]"

definition ec_file_info :: FileInfo where
  "ec_file_info =
     \<lparr> fi_size = 4,
       fi_chunks = map (\<lambda>(cid, d). \<lparr> ci_chunk_id = cid, server_addresses = [''s1''], ci_size = 1,
                                     ci_is_erasure_coded = True \<rparr>) ec_blocks,
       fi_is_encrypted = False, fi_encryption_key_id = [] \<rparr>"

text \<open>Two empty servers at \<open>s1\<close> and \<open>s2\<close>, the master's answers for a file \<open>f1\<close> of one
  chunk placed on both, and the file's entry.\<close>

definition world_two :: "(string \<rightharpoonup> string) \<Rightarrow> world" where
  "world_two ks =
     \<lparr> servers_at = [''s1'' \<mapsto> srv_empty, ''s2'' \<mapsto> srv_empty], cache_manager = new_CacheManager 100,
       key_manager = \<lparr> keys = ks \<rparr> \<rparr>"

definition f1_chunks :: "ChunkInfo list" where
  "f1_chunks = [\<lparr> ci_chunk_id = ''f1_chunk_0'', server_addresses = [''s1'', ''s2''], ci_size = 3,
                  ci_is_erasure_coded = False \<rparr>]"

definition f1_master :: master_replies where
  "f1_master = \<lparr> create_reply = Some ''f1'', alloc_reply = Some f1_chunks, complete_reply = True \<rparr>"

definition f1_info :: "bool \<Rightarrow> FileInfo" where
  "f1_info enc = \<lparr> fi_size = 3, fi_chunks = f1_chunks, fi_is_encrypted = enc,
                   fi_encryption_key_id = (if enc then ''f1_key'' else []) \<rparr>"

definition f1_keys :: "string \<rightharpoonup> string" where
  "f1_keys = [''f1_key'' \<mapsto> ''0123456789abcdef0123456789abcdef'']"

chapter \<open>Properties\<close>

section \<open>The Galois field tables\<close>

lemma gf_seq_unfold:
  "gf_seq n x = (if n = 0 then [] else gf_step x # gf_seq (n - 1) (gf_step x))"
  by (cases n) simp_all

lemma list_update_Cons_numeral:
  "(x # xs)[numeral v := y] = x # xs[numeral v - 1 := y]"
  by (simp add: numeral_eq_Suc)

lemma gf_seq_eval: "gf_seq 254 1 = gf_seq_values"
  unfolding gf_seq_values_def by (simp add: gf_seq_unfold gf_step_def Let_def)

lemma length_gf_seq: "length (gf_seq n x) = n"
  by (induction n arbitrary: x) simp_all

lemma length_init_loop:
  "length (fst (init_loop n i x (ex, lg))) = length ex \<and> length (snd (init_loop n i x (ex, lg))) = length lg"
  by (induction n arbitrary: i x ex lg) simp_all

lemma fst_init_loop:
  "i + n \<le> length ex \<Longrightarrow>
   fst (init_loop n i x (ex, lg)) = take i ex @ map of_nat (gf_seq n x) @ drop (i + n) ex"
proof (induction n arbitrary: i x ex lg)
  case 0
  then show ?case by simp
next
  case (Suc n)
  from Suc.prems have i: "i < length ex" by simp
  have "fst (init_loop (Suc n) i x (ex, lg)) =
        take (Suc i) (ex[i := of_nat (gf_step x)]) @ map of_nat (gf_seq n (gf_step x)) @
        drop (Suc i + n) (ex[i := of_nat (gf_step x)])"
    using Suc.prems by (simp add: Suc.IH)
  also have "take (Suc i) (ex[i := of_nat (gf_step x)]) = take i ex @ [of_nat (gf_step x)]"
    using i by (simp add: take_Suc_conv_app_nth)
  also have "drop (Suc i + n) (ex[i := of_nat (gf_step x)]) = drop (i + Suc n) ex"
    by simp
  finally show ?case by simp
qed


lemma snd_init_loop:
  "snd (init_loop n i x (ex, lg)) =
   fold (\<lambda>p l. l[snd p := of_nat (fst p)]) (zip [i..<i + n] (gf_seq n x)) lg"
proof (induction n arbitrary: i x ex lg)
  case 0
  then show ?case by simp
next
  case (Suc n)
  have "[i..<i + Suc n] = i # [Suc i..<Suc i + n]"
    by (simp add: upt_conv_Cons)
  then show ?case by (simp add: Suc.IH)
qed

lemma length_fold_upd:
  "length (fold (\<lambda>p l. l[snd p := (of_nat (fst p) :: u8)]) ps l) = length l"
  by (induction ps arbitrary: l) simp_all

lemma fold_upd_notin:
  "v \<notin> snd ` set ps \<Longrightarrow> fold (\<lambda>p l. l[snd p := (of_nat (fst p) :: u8)]) ps l ! v = l ! v"
  by (induction ps arbitrary: l) auto

lemma fold_upd_in:
  "distinct (map snd ps) \<Longrightarrow> (j, v) \<in> set ps \<Longrightarrow> v < length l \<Longrightarrow>
   fold (\<lambda>p l. l[snd p := (of_nat (fst p) :: u8)]) ps l ! v = of_nat j"
proof (induction ps arbitrary: l)
  case Nil
  then show ?case by simp
next
  case (Cons p ps)
  show ?case
  proof (cases "p = (j, v)")
    case True
    with Cons.prems have "v \<notin> snd ` set ps" by auto
    with True Cons.prems(3) show ?thesis by (simp add: fold_upd_notin)
  next
    case False
    with Cons.prems have "(j, v) \<in> set ps" "distinct (map snd ps)" by auto
    with Cons.prems(3) show ?thesis by (simp add: Cons.IH)
  qed
qed

lemma gf_log_values_of_gf_seq_values:
  "map (\<lambda>v. gf_log_values ! v) gf_seq_values = map of_nat [1..<255]"
  unfolding gf_seq_values_def gf_log_values_def
  by (simp add: upt_rec [of "Suc 0" "numeral n" for n] numeral_2_eq_2 [symmetric])

lemma gf_seq_values_of_gf_log_values:
  "map (\<lambda>v. if unat (gf_log_values ! v) - 1 < 254 then gf_seq_values ! (unat (gf_log_values ! v) - 1) else 0)
       [2..<256] = [2..<256]"
  unfolding gf_seq_values_def gf_log_values_def by simp

lemma length_gf_seq_values: "length gf_seq_values = 254"
  using length_gf_seq [of 254 1] by (simp only: gf_seq_eval)

lemma set_gf_seq_values: "set gf_seq_values = {2..<256}"
proof -
  have "v \<in> set gf_seq_values" if v: "2 \<le> v" "v < 256" for v
  proof -
    have "map (\<lambda>v. if unat (gf_log_values ! v) - 1 < 254 then gf_seq_values ! (unat (gf_log_values ! v) - 1) else 0) [2..<256] ! (v - 2)
          = [2..<256] ! (v - 2)"
      by (simp only: gf_seq_values_of_gf_log_values)
    moreover have nth: "[2..<256] ! (v - 2) = v" "v - 2 < length [2..<256]"
      using v by (simp_all del: upt_rec_numeral)
    ultimately have eq: "(if unat (gf_log_values ! v) - 1 < 254 then gf_seq_values ! (unat (gf_log_values ! v) - 1) else 0) = v"
      by (simp only: nth_map nth)
    with v have "unat (gf_log_values ! v) - 1 < 254" "gf_seq_values ! (unat (gf_log_values ! v) - 1) = v"
      by (auto split: if_splits)
    then show ?thesis
      by (metis length_gf_seq_values nth_mem)
  qed
  then have sub: "{2..<256} \<subseteq> set gf_seq_values" by auto
  have "card (set gf_seq_values) \<le> 254" using card_length [of gf_seq_values] by (simp add: length_gf_seq_values)
  then have "card (set gf_seq_values) \<le> card {2..<256::nat}" by simp
  with sub have "{2..<256} = set gf_seq_values" by (intro card_seteq) simp_all
  then show ?thesis by simp
qed

lemma distinct_gf_seq_values: "distinct gf_seq_values"
proof -
  have "card (set gf_seq_values) = length gf_seq_values" by (simp add: set_gf_seq_values length_gf_seq_values)
  then show ?thesis by (rule card_distinct)
qed

lemma ex0_take: "take 1 ((replicate 256 (0::u8))[0 := 1]) = [1]"
  by (simp add: numeral_eq_Suc)

lemma ex0_drop: "drop 255 ((replicate 256 (0::u8))[0 := 1]) = [0]"
  by (simp add: drop_update_cancel)

lemma gf_exp_table_eval: "gf_exp_table = gf_exp_values"
proof -
  have "fst (init_loop 254 1 1 ((replicate 256 0)[0 := 1], (replicate 256 0)[0 := 0])) =
        take 1 ((replicate 256 0)[0 := 1]) @ map of_nat (gf_seq 254 1) @
        drop (1 + 254) ((replicate 256 0)[0 := 1])"
    by (rule fst_init_loop) simp
  then have "fst (init_loop 254 1 1 ((replicate 256 0)[0 := 1], (replicate 256 0)[0 := 0])) =
        [1] @ map of_nat gf_seq_values @ [0]"
    by (simp only: ex0_take ex0_drop gf_seq_eval) simp
  then have "gf_exp_table = ([1] @ map of_nat gf_seq_values @ [0])[255 := ([1] @ map of_nat gf_seq_values @ [0]) ! 0]"
    by (simp add: gf_exp_table_def initializeTables_def split_beta)
  also have "\<dots> = gf_exp_values"
    unfolding gf_seq_values_def gf_exp_values_def by (simp add: list_update_Cons_numeral)
  finally show ?thesis .
qed

lemma gf_log_table_eval: "gf_log_table = gf_log_values"
proof -
  define R where "R = fold (\<lambda>p l. l[snd p := (of_nat (fst p) :: u8)]) (zip [1..<255] gf_seq_values) (replicate 256 0)"
  have lg0: "(replicate 256 (0::u8))[0 := 0] = replicate 256 0"
    by (simp add: list_eq_iff_nth_eq nth_list_update)
  have "snd (init_loop 254 1 1 ((replicate 256 0)[0 := 1], (replicate 256 0)[0 := 0])) = R"
    unfolding R_def by (simp only: snd_init_loop lg0 gf_seq_eval) (simp del: upt_rec_numeral)
  then have tab: "gf_log_table = R[1 := 0]"
    by (simp add: gf_log_table_def initializeTables_def split_beta)
  have lenR: "length R = 256"
    by (simp add: R_def length_fold_upd)
  have lenL: "length gf_log_values = 256"
    by (simp add: gf_log_values_def)
  have "R[1 := 0] = gf_log_values"
  proof (rule nth_equalityI)
    show "length (R[1 := 0]) = length gf_log_values" by (simp add: lenR lenL)
  next
    fix v assume "v < length (R[1 := 0])"
    then have v: "v < 256" by (simp add: lenR)
    show "R[1 := 0] ! v = gf_log_values ! v"
    proof (cases "v \<in> set gf_seq_values")
      case True
      then obtain j where j: "j < 254" "gf_seq_values ! j = v"
        by (auto simp: in_set_conv_nth length_gf_seq_values)
      then have mem: "(Suc j, v) \<in> set (zip [1..<255] gf_seq_values)"
        by (auto simp del: upt_rec_numeral simp: in_set_zip length_gf_seq_values intro!: exI [of _ j])
      have "distinct (map snd (zip [1..<255] gf_seq_values))"
        by (simp del: upt_rec_numeral add: map_snd_zip length_gf_seq_values distinct_gf_seq_values)
      from fold_upd_in [OF this mem, of "replicate 256 0"] v
      have Rv: "R ! v = of_nat (Suc j)" by (simp add: R_def)
      from True have "v \<noteq> 1" by (simp add: set_gf_seq_values)
      then have "R[1 := 0] ! v = of_nat (Suc j)" by (simp add: Rv)
      moreover have "map (\<lambda>v. gf_log_values ! v) gf_seq_values ! j = map of_nat [1..<255] ! j"
        by (simp only: gf_log_values_of_gf_seq_values)
      with j have "gf_log_values ! v = of_nat (Suc j)" by (simp del: upt_rec_numeral add: length_gf_seq_values)
      ultimately show ?thesis by simp
    next
      case False
      with v have v01: "v = 0 \<or> v = 1" by (auto simp: set_gf_seq_values)
      from False have "v \<notin> snd ` set (zip [1..<255] gf_seq_values)"
        by (auto dest: set_zip_rightD)
      then have Rv: "R ! v = replicate 256 0 ! v"
        unfolding R_def by (rule fold_upd_notin)
      from v01 show ?thesis
      proof
        assume "v = 0"
        with Rv show ?thesis by (simp add: gf_log_values_def)
      next
        assume "v = 1"
        then show ?thesis by (simp add: gf_log_values_def lenR)
      qed
    qed
  qed
  with tab show ?thesis by simp
qed


section \<open>Properties of the codec\<close>

lemma length_available_indices_of:
  "length (available_indices_of av) = length (filter (\<lambda>a. a) av)"
proof -
  have "filter (\<lambda>a. a) av = map ((!) av) (available_indices_of av)"
    unfolding available_indices_of_def
    by (subst (1) map_nth [symmetric]) (simp only: filter_map comp_def)
  then show ?thesis by simp
qed

lemma count_loop:
  "fold (\<lambda>avail c. if avail then c + 1 else c) av (n::nat) = n + length (filter (\<lambda>a. a) av)"
  by (induction av arbitrary: n) auto

declare gf_exp_table_eval [code] gf_log_table_eval [code]

lemma replicate_6: "replicate 6 x = [x, x, x, x, x, x]"
  by (simp add: eval_nat_numeral)

lemma encode_example: "encode 4 2 [1, 2, 3, 4] = Inr [[1], [2], [3], [4], [113], [204]]"
  by code_simp

lemma decode_example:
  "decode 4 2 [[], [2], [3], [4], [113], [204]] [False, True, True, True, True, True] =
   Inr [47, 180, 163, 212]"
  by code_simp

text \<open>
  C2, evaluated on the code: with the default \<open>(k, m) = (4, 2)\<close>, the bytes \<open>1, 2, 3, 4\<close>
  are encoded into six one-byte blocks; when block 0 alone is lost (one loss, at most
  \<open>m\<close>), \<open>decodeChunk\<close> returns \<open>47, 180, 163, 212\<close> and not the input.  \<open>encode\<close> stores the
  data blocks unchanged, while \<open>decode\<close> inverts the Vandermonde rows of the surviving
  indices as if every block, data blocks included, were a Vandermonde combination.
\<close>

theorem rs_roundtrip_fails:
  "\<exists>g. encodeChunk sha256 4 2 ''c'' [1, 2, 3, 4] = Inr g \<and>
       decodeChunk 4 2 (lose_blocks [0] g) = Inr [47, 180, 163, 212]"
proof -
  have "place_blocks 6
          (sort_key block_index
             (filter (\<lambda>c. block_index c \<notin> set [0])
                (map (\<lambda>i. \<lparr> cc_chunk_id = ''c'' @ ''_block_'' @ to_string i, block_index = int i,
                               is_parity = (i \<ge> 4),
                               cc_data = [[1], [2], [3], [4], [113], [204]] ! i,
                               cc_checksum = sha256 ([[1], [2], [3], [4], [113], [204]] ! i) \<rparr>)
                     [0, 1, 2, 3, 4, 5])))
          (replicate 6 [], replicate 6 False) =
        ([[], [2], [3], [4], [113], [204]], [False, True, True, True, True, True])"
    by (simp add: replicate_6 list_update_Cons_numeral)
  moreover have "[0..<length [[1], [2], [3], [4], [113], [204::u8]]] = [0, 1, 2, 3, 4, 5]"
    by (simp add: upt_rec [of 0] upt_rec [of "Suc 0"] numeral_2_eq_2 [symmetric])
  ultimately show ?thesis
    by (simp add: encodeChunk_def encode_example decodeChunk_def lose_blocks_def decode_example
        removePadding_def del: upt_rec_numeral)
qed

text \<open>
  C3: when fewer than \<open>k\<close> entries of the availability vector are true, that is more than
  \<open>m\<close> of the \<open>k + m\<close> blocks are lost, \<open>decode\<close> signals an error (a value of the left
  summand) and returns no byte sequence, whatever the blocks hold; and \<open>canDecode\<close> is true
  exactly when at least \<open>k\<close> entries are true.
\<close>

theorem decode_limit:
  "(length (filter (\<lambda>a. a) availability) < k \<longrightarrow> (\<exists>e. decode k m bs availability = Inl e)) \<and>
   (canDecode k availability \<longleftrightarrow> k \<le> length (filter (\<lambda>a. a) availability))"
  by (simp add: decode_def canDecode_def Let_def length_available_indices_of count_loop)

theorem decode_limit_witness:
  "(\<exists>e. decode 4 2 [[], [], [], [4], [113], [204]] [False, False, False, True, True, True] = Inl e) \<and>
   \<not> canDecode 4 [False, False, False, True, True, True]"
  using decode_limit [of "[False, False, False, True, True, True]" 4 2 "[[], [], [], [4], [113], [204]]"]
  by simp

section \<open>The chunk-server relation\<close>

lemma in_indices_eq: "in_indices md c s = (in_c2s md c s \<and> in_s2c md c s)"
  by (simp add: in_indices_def in_c2s_def in_s2c_def)

lemma set_set_insert [simp]: "set (set_insert x xs) = insert x (set xs)"
  by (auto simp: set_insert_def)

lemma set_set_erase [simp]: "set (set_erase x xs) = set xs - {x}"
  by (auto simp: set_erase_def)

lemma index_get_insert [simp]:
  "index_get (index_insert m k v) k' = (if k' = k then set_insert v (index_get m k) else index_get m k')"
  by (simp add: index_get_def index_insert_def)

lemma index_get_erase [simp]:
  "index_get (index_erase m k v) k' = (if k' = k then set_erase v (index_get m k) else index_get m k')"
  by (simp add: index_get_def index_erase_def)

lemma map_of_server_insert_chunk:
  "map_of (server_insert_chunk ss sid cid) s =
     (if s = sid
      then map_option (\<lambda>sm. sm\<lparr> stored_chunks := set_insert cid (stored_chunks sm),
                                 chunk_count := int (length (set_insert cid (stored_chunks sm))) \<rparr>)
                      (map_of ss sid)
      else map_of ss s)"
  by (simp add: server_insert_chunk_def update_conv' split: option.splits)

lemma map_of_server_erase_chunk:
  "map_of (server_erase_chunk ss sid cid) s =
     (if s = sid
      then map_option (\<lambda>sm. sm\<lparr> stored_chunks := set_erase cid (stored_chunks sm),
                                 chunk_count := int (length (set_erase cid (stored_chunks sm))) \<rparr>)
                      (map_of ss sid)
      else map_of ss s)"
  by (simp add: server_erase_chunk_def update_conv' split: option.splits)

subsection \<open>Field updates that leave a side alone\<close>

lemma side_updates [simp]:
  "in_c2s (md\<lparr> chunks := x \<rparr>) = in_c2s md"
  "in_c2s (md\<lparr> servers := y \<rparr>) = in_c2s md"
  "in_c2s (md\<lparr> server_to_chunks := z \<rparr>) = in_c2s md"
  "in_s2c (md\<lparr> chunks := x \<rparr>) = in_s2c md"
  "in_s2c (md\<lparr> servers := y \<rparr>) = in_s2c md"
  "in_s2c (md\<lparr> chunk_to_servers := z \<rparr>) = in_s2c md"
  "in_stored (md\<lparr> chunks := x \<rparr>) = in_stored md"
  "in_stored (md\<lparr> chunk_to_servers := z \<rparr>) = in_stored md"
  "in_stored (md\<lparr> server_to_chunks := z \<rparr>) = in_stored md"
  "in_locations (md\<lparr> servers := y \<rparr>) = in_locations md"
  "in_locations (md\<lparr> chunk_to_servers := z \<rparr>) = in_locations md"
  "in_locations (md\<lparr> server_to_chunks := z \<rparr>) = in_locations md"
  "registered (md\<lparr> chunks := x \<rparr>) = registered md"
  "registered (md\<lparr> chunk_to_servers := z \<rparr>) = registered md"
  "registered (md\<lparr> server_to_chunks := z \<rparr>) = registered md"
  by (simp_all add: fun_eq_iff in_c2s_def in_s2c_def in_stored_def in_locations_def registered_def)

lemma c2s_erase_entry [simp]:
  "in_c2s (md\<lparr> chunk_to_servers := (chunk_to_servers md)(c := None) \<rparr>) c' s' = (in_c2s md c' s' \<and> c' \<noteq> c)"
  by (simp add: in_c2s_def index_get_def)

lemma s2c_clear_entry [simp]:
  "in_s2c (md\<lparr> server_to_chunks := (server_to_chunks md)(s \<mapsto> []) \<rparr>) c' s' = (in_s2c md c' s' \<and> s' \<noteq> s)"
  "in_s2c (md\<lparr> server_to_chunks := (server_to_chunks md)(s := None) \<rparr>) c' s' = (in_s2c md c' s' \<and> s' \<noteq> s)"
  by (simp_all add: in_s2c_def index_get_def)

lemma in_c2s_None: "chunk_to_servers md c = None \<Longrightarrow> \<not> in_c2s md c s"
  by (simp add: in_c2s_def index_get_def)

lemma in_c2s_Some: "chunk_to_servers md c = Some ss \<Longrightarrow> in_c2s md c s = (s \<in> set ss)"
  by (simp add: in_c2s_def index_get_def)

lemma in_s2c_None: "server_to_chunks md s = None \<Longrightarrow> \<not> in_s2c md c s"
  by (simp add: in_s2c_def index_get_def)

lemma in_s2c_Some: "server_to_chunks md s = Some cs \<Longrightarrow> in_s2c md c s = (c \<in> set cs)"
  by (simp add: in_s2c_def index_get_def)

subsection \<open>Adding one location\<close>

lemma add_location_chunks [simp]: "chunks (add_location c s md) = chunks md"
  by (simp add: add_location_def)

lemma add_location_c2s [simp]:
  "in_c2s (add_location c s md) c' s' \<longleftrightarrow> in_c2s md c' s' \<or> (c' = c \<and> s' = s)"
  by (auto simp: add_location_def in_c2s_def)

lemma add_location_s2c [simp]:
  "in_s2c (add_location c s md) c' s' \<longleftrightarrow> in_s2c md c' s' \<or> (c' = c \<and> s' = s)"
  by (auto simp: add_location_def in_s2c_def)

lemma add_location_registered [simp]:
  "registered (add_location c s md) s' = registered md s'"
  by (simp add: add_location_def registered_def map_of_server_insert_chunk)

lemma add_location_stored [simp]:
  "in_stored (add_location c s md) c' s' \<longleftrightarrow>
   in_stored md c' s' \<or> (c' = c \<and> s' = s \<and> registered md s)"
  by (auto simp: add_location_def in_stored_def registered_def map_of_server_insert_chunk
           split: option.splits)

lemma add_location_locations [simp]:
  "in_locations (add_location c s md) c' s' = in_locations md c' s'"
  by (simp add: in_locations_def)

lemma fold_add_location:
  "in_c2s (fold (add_location c) locs md) c' s' = (in_c2s md c' s' \<or> (c' = c \<and> s' \<in> set locs))"
  "in_s2c (fold (add_location c) locs md) c' s' = (in_s2c md c' s' \<or> (c' = c \<and> s' \<in> set locs))"
  "in_stored (fold (add_location c) locs md) c' s' =
     (in_stored md c' s' \<or> (c' = c \<and> s' \<in> set locs \<and> registered md s'))"
  "in_locations (fold (add_location c) locs md) c' s' = in_locations md c' s'"
  "registered (fold (add_location c) locs md) s' = registered md s'"
  by (induction locs arbitrary: md; auto)+

subsection \<open>Removing a chunk from all servers\<close>

lemma remove_from_server_effect [simp]:
  "chunks (remove_from_server c s md) = chunks md"
  "chunk_to_servers (remove_from_server c s md) = chunk_to_servers md"
  "in_s2c (remove_from_server c s md) c' s' \<longleftrightarrow> in_s2c md c' s' \<and> \<not> (c' = c \<and> s' = s)"
  "in_stored (remove_from_server c s md) c' s' \<longleftrightarrow> in_stored md c' s' \<and> \<not> (c' = c \<and> s' = s)"
  "registered (remove_from_server c s md) s' = registered md s'"
  by (auto simp: remove_from_server_def in_s2c_def in_stored_def registered_def
                 map_of_server_erase_chunk split: option.splits)

lemma fold_remove_from_server:
  "chunks (fold (remove_from_server c) ss md) = chunks md"
  "chunk_to_servers (fold (remove_from_server c) ss md) = chunk_to_servers md"
  "in_s2c (fold (remove_from_server c) ss md) c' s' = (in_s2c md c' s' \<and> \<not> (c' = c \<and> s' \<in> set ss))"
  "in_stored (fold (remove_from_server c) ss md) c' s' = (in_stored md c' s' \<and> \<not> (c' = c \<and> s' \<in> set ss))"
  "registered (fold (remove_from_server c) ss md) s' = registered md s'"
  by (induction ss arbitrary: md; auto)+

lemma removeChunkFromAllServers_effect:
  "chunks (removeChunkFromAllServers md c) = chunks md"
  "in_c2s (removeChunkFromAllServers md c) c' s' = (in_c2s md c' s' \<and> c' \<noteq> c)"
  "in_s2c (removeChunkFromAllServers md c) c' s' = (in_s2c md c' s' \<and> \<not> (c' = c \<and> in_c2s md c s'))"
  "in_stored (removeChunkFromAllServers md c) c' s' = (in_stored md c' s' \<and> \<not> (c' = c \<and> in_c2s md c s'))"
  "in_locations (removeChunkFromAllServers md c) c' s' = in_locations md c' s'"
  "registered (removeChunkFromAllServers md c) s' = registered md s'"
proof -
  show "chunks (removeChunkFromAllServers md c) = chunks md"
    by (simp add: removeChunkFromAllServers_def Let_def fold_remove_from_server split: option.splits)
  have c2s: "in_c2s (fold (remove_from_server c) ss md) = in_c2s md" for ss
    by (simp add: fun_eq_iff in_c2s_def fold_remove_from_server)
  have loc: "in_locations (fold (remove_from_server c) ss md) = in_locations md" for ss
    by (simp add: fun_eq_iff in_locations_def fold_remove_from_server)
  have ctos: "chunk_to_servers md = chunk_to_servers (fold (remove_from_server c) ss md)" for ss
    by (simp add: fold_remove_from_server)
  show "in_c2s (removeChunkFromAllServers md c) c' s' = (in_c2s md c' s' \<and> c' \<noteq> c)"
    by (cases "chunk_to_servers md c")
       (auto simp: removeChunkFromAllServers_def Let_def fold_remove_from_server in_c2s_def index_get_def)
  show "in_s2c (removeChunkFromAllServers md c) c' s' = (in_s2c md c' s' \<and> \<not> (c' = c \<and> in_c2s md c s'))"
    by (cases "chunk_to_servers md c")
       (auto simp: removeChunkFromAllServers_def Let_def fold_remove_from_server in_c2s_None in_c2s_Some)
  show "in_stored (removeChunkFromAllServers md c) c' s' = (in_stored md c' s' \<and> \<not> (c' = c \<and> in_c2s md c s'))"
    by (cases "chunk_to_servers md c")
       (auto simp: removeChunkFromAllServers_def Let_def fold_remove_from_server in_c2s_None in_c2s_Some)
  show "in_locations (removeChunkFromAllServers md c) c' s' = in_locations md c' s'"
    by (cases "chunk_to_servers md c")
       (auto simp: removeChunkFromAllServers_def Let_def loc)
  show "registered (removeChunkFromAllServers md c) s' = registered md s'"
    by (cases "chunk_to_servers md c")
       (auto simp: removeChunkFromAllServers_def Let_def fold_remove_from_server)
qed

subsection \<open>Removing all chunks from a server\<close>

lemma remove_server_from_chunk_effect [simp]:
  "servers (remove_server_from_chunk s c md) = servers md"
  "server_to_chunks (remove_server_from_chunk s c md) = server_to_chunks md"
  "in_c2s (remove_server_from_chunk s c md) c' s' \<longleftrightarrow> in_c2s md c' s' \<and> \<not> (c' = c \<and> s' = s)"
  "in_locations (remove_server_from_chunk s c md) c' s' \<longleftrightarrow> in_locations md c' s' \<and> \<not> (c' = c \<and> s' = s)"
  by (auto simp: remove_server_from_chunk_def in_c2s_def in_locations_def split: option.splits)

lemma fold_remove_server_from_chunk:
  "servers (fold (remove_server_from_chunk s) cs md) = servers md"
  "server_to_chunks (fold (remove_server_from_chunk s) cs md) = server_to_chunks md"
  "in_c2s (fold (remove_server_from_chunk s) cs md) c' s' = (in_c2s md c' s' \<and> \<not> (s' = s \<and> c' \<in> set cs))"
  "in_locations (fold (remove_server_from_chunk s) cs md) c' s' =
     (in_locations md c' s' \<and> \<not> (s' = s \<and> c' \<in> set cs))"
  by (induction cs arbitrary: md; auto)+

lemma removeAllChunksFromServer_effect:
  "servers (removeAllChunksFromServer md s) = servers md"
  "in_c2s (removeAllChunksFromServer md s) c' s' = (in_c2s md c' s' \<and> \<not> (s' = s \<and> in_s2c md c' s))"
  "in_locations (removeAllChunksFromServer md s) c' s' = (in_locations md c' s' \<and> \<not> (s' = s \<and> in_s2c md c' s))"
  "in_s2c (removeAllChunksFromServer md s) c' s' = (in_s2c md c' s' \<and> s' \<noteq> s)"
  "in_stored (removeAllChunksFromServer md s) c' s' = in_stored md c' s'"
  "registered (removeAllChunksFromServer md s) s' = registered md s'"
proof -
  have srv: "servers (removeAllChunksFromServer md s) = servers md"
    by (simp add: removeAllChunksFromServer_def Let_def fold_remove_server_from_chunk split: option.splits)
  then show "servers (removeAllChunksFromServer md s) = servers md" .
  have s2c: "in_s2c (fold (remove_server_from_chunk s) cs md) = in_s2c md" for cs
    by (simp add: fun_eq_iff in_s2c_def fold_remove_server_from_chunk)
  show "in_c2s (removeAllChunksFromServer md s) c' s' = (in_c2s md c' s' \<and> \<not> (s' = s \<and> in_s2c md c' s))"
    by (cases "server_to_chunks md s")
       (auto simp: removeAllChunksFromServer_def Let_def fold_remove_server_from_chunk in_s2c_None in_s2c_Some)
  show "in_locations (removeAllChunksFromServer md s) c' s' = (in_locations md c' s' \<and> \<not> (s' = s \<and> in_s2c md c' s))"
    by (cases "server_to_chunks md s")
       (auto simp: removeAllChunksFromServer_def Let_def fold_remove_server_from_chunk in_s2c_None in_s2c_Some)
  have stc: "server_to_chunks md = server_to_chunks (fold (remove_server_from_chunk s) cs md)" for cs
    by (simp add: fold_remove_server_from_chunk)
  show "in_s2c (removeAllChunksFromServer md s) c' s' = (in_s2c md c' s' \<and> s' \<noteq> s)"
    by (cases "server_to_chunks md s")
       (auto simp: removeAllChunksFromServer_def Let_def fold_remove_server_from_chunk in_s2c_def index_get_def)
  show "in_stored (removeAllChunksFromServer md s) c' s' = in_stored md c' s'"
    by (simp add: in_stored_def srv)
  show "registered (removeAllChunksFromServer md s) s' = registered md s'"
    by (simp add: registered_def srv)
qed


subsection \<open>The public mutations\<close>

lemma removeChunkFromServer_effect:
  "in_c2s (snd (removeChunkFromServer md c s)) c' s' = (in_c2s md c' s' \<and> \<not> (c' = c \<and> s' = s))"
  "in_s2c (snd (removeChunkFromServer md c s)) c' s' = (in_s2c md c' s' \<and> \<not> (c' = c \<and> s' = s))"
  "in_locations (snd (removeChunkFromServer md c s)) c' s' = (in_locations md c' s' \<and> \<not> (c' = c \<and> s' = s))"
  "in_stored (snd (removeChunkFromServer md c s)) c' s' = (in_stored md c' s' \<and> \<not> (c' = c \<and> s' = s))"
  by (auto simp: removeChunkFromServer_def Let_def in_c2s_def in_s2c_def in_locations_def
                 in_stored_def map_of_server_erase_chunk split: option.splits)

lemma addChunkToServer_effect:
  "in_c2s (snd (addChunkToServer md c s)) c' s' = (in_c2s md c' s' \<or> (c' = c \<and> s' = s))"
  "in_s2c (snd (addChunkToServer md c s)) c' s' = (in_s2c md c' s' \<or> (c' = c \<and> s' = s))"
  "in_locations (snd (addChunkToServer md c s)) c' s' =
     (in_locations md c' s' \<or> (c' = c \<and> s' = s \<and> chunks md c \<noteq> None))"
  "in_stored (snd (addChunkToServer md c s)) c' s' =
     (in_stored md c' s' \<or> (c' = c \<and> s' = s \<and> registered md s))"
  by (auto simp: addChunkToServer_def Let_def in_c2s_def in_s2c_def in_locations_def
                 in_stored_def registered_def map_of_server_insert_chunk split: option.splits)

lemma addChunk_effect:
  "in_c2s (snd (addChunk md c meta)) c' s' = (in_c2s md c' s' \<or> (c' = c \<and> s' \<in> set (server_locations meta)))"
  "in_s2c (snd (addChunk md c meta)) c' s' = (in_s2c md c' s' \<or> (c' = c \<and> s' \<in> set (server_locations meta)))"
  "in_locations (snd (addChunk md c meta)) c' s' =
     (if c' = c then s' \<in> set (server_locations meta) else in_locations md c' s')"
  "in_stored (snd (addChunk md c meta)) c' s' =
     (in_stored md c' s' \<or> (c' = c \<and> s' \<in> set (server_locations meta) \<and> registered md s'))"
  by (simp_all add: addChunk_def fold_add_location) (simp add: in_locations_def)

lemma updateChunkLocations_effect:
  assumes "chunks md c = Some cm"
  shows
  "in_c2s (snd (updateChunkLocations md c locs)) c' s' = (if c' = c then s' \<in> set locs else in_c2s md c' s')"
  "in_s2c (snd (updateChunkLocations md c locs)) c' s' =
     ((in_s2c md c' s' \<and> \<not> (c' = c \<and> in_c2s md c s')) \<or> (c' = c \<and> s' \<in> set locs))"
  "in_locations (snd (updateChunkLocations md c locs)) c' s' =
     (if c' = c then s' \<in> set locs else in_locations md c' s')"
  "in_stored (snd (updateChunkLocations md c locs)) c' s' =
     ((in_stored md c' s' \<and> \<not> (c' = c \<and> in_c2s md c s')) \<or> (c' = c \<and> s' \<in> set locs \<and> registered md s'))"
proof -
  have loc: "in_locations (removeChunkFromAllServers md c\<lparr>chunks := (chunks md)(c \<mapsto> cm\<lparr>server_locations := locs\<rparr>)\<rparr>) c' s'
        = (if c' = c then s' \<in> set locs else in_locations md c' s')"
    by (simp add: in_locations_def)
  show "in_c2s (snd (updateChunkLocations md c locs)) c' s' = (if c' = c then s' \<in> set locs else in_c2s md c' s')"
    using assms
    by (auto simp: updateChunkLocations_def Let_def fold_add_location removeChunkFromAllServers_effect)
  show "in_s2c (snd (updateChunkLocations md c locs)) c' s' =
     ((in_s2c md c' s' \<and> \<not> (c' = c \<and> in_c2s md c s')) \<or> (c' = c \<and> s' \<in> set locs))"
    using assms
    by (auto simp: updateChunkLocations_def Let_def fold_add_location removeChunkFromAllServers_effect)
  show "in_locations (snd (updateChunkLocations md c locs)) c' s' =
     (if c' = c then s' \<in> set locs else in_locations md c' s')"
    using assms loc
    by (simp add: updateChunkLocations_def Let_def fold_add_location removeChunkFromAllServers_effect)
  show "in_stored (snd (updateChunkLocations md c locs)) c' s' =
     ((in_stored md c' s' \<and> \<not> (c' = c \<and> in_c2s md c s')) \<or> (c' = c \<and> s' \<in> set locs \<and> registered md s'))"
    using assms
    by (auto simp: updateChunkLocations_def Let_def fold_add_location removeChunkFromAllServers_effect)
qed

lemma updateChunkLocations_unknown:
  "chunks md c = None \<Longrightarrow> updateChunkLocations md c locs = (False, md)"
  by (simp add: updateChunkLocations_def)

lemma unregisterServer_effect:
  assumes "registered md s"
  shows
  "in_c2s (snd (unregisterServer md s)) c' s' = (in_c2s md c' s' \<and> \<not> (s' = s \<and> in_s2c md c' s))"
  "in_s2c (snd (unregisterServer md s)) c' s' = (in_s2c md c' s' \<and> s' \<noteq> s)"
  "in_locations (snd (unregisterServer md s)) c' s' = (in_locations md c' s' \<and> \<not> (s' = s \<and> in_s2c md c' s))"
  "in_stored (snd (unregisterServer md s)) c' s' = (in_stored md c' s' \<and> s' \<noteq> s)"
proof -
  from assms obtain sm where sm: "map_of (servers md) s = Some sm"
    by (auto simp: registered_def)
  let ?md1 = "removeAllChunksFromServer md s"
  have un: "snd (unregisterServer md s) =
      ?md1\<lparr> servers := AList.delete s (servers ?md1),
             server_to_chunks := (server_to_chunks ?md1)(s := None) \<rparr>"
    using sm by (simp add: unregisterServer_def Let_def)
  show "in_c2s (snd (unregisterServer md s)) c' s' = (in_c2s md c' s' \<and> \<not> (s' = s \<and> in_s2c md c' s))"
    by (simp add: un removeAllChunksFromServer_effect)
  show "in_s2c (snd (unregisterServer md s)) c' s' = (in_s2c md c' s' \<and> s' \<noteq> s)"
    using removeAllChunksFromServer_effect(4) [of md s c' s']
    by (auto simp: un in_s2c_def index_get_def)
  show "in_locations (snd (unregisterServer md s)) c' s' = (in_locations md c' s' \<and> \<not> (s' = s \<and> in_s2c md c' s))"
    by (simp add: un removeAllChunksFromServer_effect)
  show "in_stored (snd (unregisterServer md s)) c' s' = (in_stored md c' s' \<and> s' \<noteq> s)"
    by (auto simp: un in_stored_def removeAllChunksFromServer_effect(1) delete_conv')
qed

lemma unregisterServer_unknown:
  "\<not> registered md s \<Longrightarrow> unregisterServer md s = (False, md)"
  by (simp add: unregisterServer_def registered_def)

lemma set_fold_set_insert: "set (fold set_insert xs acc) = set xs \<union> set acc"
  by (induction xs arbitrary: acc) auto

lemma heartbeat_update_effect:
  assumes "registered md (hb_server_id request)"
  shows
  "in_c2s (snd (heartbeat_update md now request)) = in_c2s md"
  "in_s2c (snd (heartbeat_update md now request)) = in_s2c md"
  "in_locations (snd (heartbeat_update md now request)) = in_locations md"
  "in_stored (snd (heartbeat_update md now request)) c' s' =
     (if s' = hb_server_id request then c' \<in> set (hb_stored_chunks request) else in_stored md c' s')"
  using assms
  by (auto simp: heartbeat_update_def getServerMetadata_def updateServerMetadata_def Let_def
                 registered_def in_stored_def update_conv' set_fold_set_insert)

lemma heartbeat_update_unknown:
  "\<not> registered md (hb_server_id request) \<Longrightarrow> heartbeat_update md now request = (False, md)"
  by (simp add: heartbeat_update_def getServerMetadata_def registered_def)


lemma sides_agreeI:
  assumes "\<And>c s. in_locations md c s = in_stored md c s"
      and "\<And>c s. in_stored md c s = (in_c2s md c s \<and> in_s2c md c s)"
  shows "sides_agree md"
  using assms by (simp add: sides_agree_def in_indices_eq)

lemma sides_agreeD:
  assumes "sides_agree md"
  shows "in_locations md c s = in_stored md c s"
    and "in_stored md c s = (in_c2s md c s \<and> in_s2c md c s)"
  using assms by (simp_all add: sides_agree_def in_indices_eq)

lemma sides_agree_md_example: "sides_agree md_example"
  by (rule sides_agreeI)
     (simp_all add: md_example_def in_locations_def in_stored_def in_c2s_def in_s2c_def
        index_get_def chunk_example_def server_example_def)

lemma registered_md_example: "registered md_example ''s1''"
  by (simp add: registered_def md_example_def)

text \<open>
  C6 as amended: starting from a state whose three sides agree,
  \<open>removeChunkFromServer\<close> and \<open>unregisterServer\<close> always end in such a state;
  \<open>addChunkToServer\<close> does when the chunk is known and the server registered; \<open>addChunk\<close>
  does when every listed server is registered and no server outside the list stores the
  chunk; \<open>updateChunkLocations\<close> does when every listed server is registered; and the
  heartbeat update does when the reported inventory equals the recorded one.
\<close>

theorem sides_agree_preserved:
  "sides_agree md \<Longrightarrow>
     sides_agree (snd (removeChunkFromServer md c s)) \<and>
     sides_agree (snd (unregisterServer md s)) \<and>
     (chunks md c \<noteq> None \<and> registered md s \<longrightarrow> sides_agree (snd (addChunkToServer md c s))) \<and>
     ((\<forall>x \<in> set (server_locations meta). registered md x) \<and>
      (\<forall>x. in_stored md c x \<longrightarrow> x \<in> set (server_locations meta)) \<longrightarrow>
        sides_agree (snd (addChunk md c meta))) \<and>
     ((\<forall>x \<in> set locs. registered md x) \<longrightarrow> sides_agree (snd (updateChunkLocations md c locs))) \<and>
     (set (hb_stored_chunks request) = {x. in_stored md x (hb_server_id request)} \<longrightarrow>
        sides_agree (snd (heartbeat_update md now request)))"
proof -
  assume inv: "sides_agree md"
  note a = sides_agreeD [OF inv]
  have 1: "sides_agree (snd (removeChunkFromServer md c s))"
    by (rule sides_agreeI) (auto simp: removeChunkFromServer_effect a)
  have 2: "sides_agree (snd (unregisterServer md s))"
  proof (cases "registered md s")
    case True
    show ?thesis
      by (rule sides_agreeI) (auto simp: unregisterServer_effect [OF True] a)
  next
    case False
    then show ?thesis by (simp add: unregisterServer_unknown inv)
  qed
  have 3: "sides_agree (snd (addChunkToServer md c s))" if "chunks md c \<noteq> None" "registered md s"
    using that by (intro sides_agreeI) (auto simp: addChunkToServer_effect a)
  have 4: "sides_agree (snd (addChunk md c meta))"
    if "\<forall>x \<in> set (server_locations meta). registered md x"
       "\<forall>x. in_stored md c x \<longrightarrow> x \<in> set (server_locations meta)"
    using that by (intro sides_agreeI) (auto simp: addChunk_effect a)
  have 5: "sides_agree (snd (updateChunkLocations md c locs))" if reg: "\<forall>x \<in> set locs. registered md x"
  proof (cases "chunks md c")
    case None
    then show ?thesis by (simp add: updateChunkLocations_unknown inv)
  next
    case (Some cm)
    show ?thesis
      using reg by (intro sides_agreeI) (auto simp: updateChunkLocations_effect [OF Some] a)
  qed
  have 6: "sides_agree (snd (heartbeat_update md now request))"
    if same: "set (hb_stored_chunks request) = {x. in_stored md x (hb_server_id request)}"
  proof (cases "registered md (hb_server_id request)")
    case True
    show ?thesis
      using same by (intro sides_agreeI) (auto simp: heartbeat_update_effect [OF True] a)
  next
    case False
    then show ?thesis by (simp add: heartbeat_update_unknown inv)
  qed
  from 1 2 3 4 5 6 show ?thesis by blast
qed

theorem sides_agree_preserved_witness:
  "sides_agree md_example \<and>
   sides_agree (snd (removeChunkFromServer md_example ''c1'' ''s1'')) \<and>
   sides_agree (snd (unregisterServer md_example ''s1'')) \<and>
   sides_agree (snd (addChunkToServer md_example ''c1'' ''s1'')) \<and>
   sides_agree (snd (addChunk md_example ''c1'' (chunk_example [''s1'']))) \<and>
   sides_agree (snd (updateChunkLocations md_example ''c1'' [''s1''])) \<and>
   sides_agree (snd (heartbeat_update md_example 0 hb_example))"
proof -
  have stored: "\<not> in_stored md_example c x" for c x
    by (simp add: in_stored_def md_example_def server_example_def)
  have known: "chunks md_example ''c1'' \<noteq> None"
    by (simp add: md_example_def)
  show ?thesis
    using sides_agree_preserved [OF sides_agree_md_example, of "''c1''" "''s1''"
            "chunk_example [''s1'']" "[''s1'']" hb_example 0]
    by (simp add: sides_agree_md_example registered_md_example stored known chunk_example_def
          hb_example_def)
qed

text \<open>
  C6 as stated fails.  \<open>addChunkToServer\<close> for a chunk id the master does not know records
  the pair in both indices and in the server's \<open>stored_chunks\<close>, but there is no
  \<open>server_locations\<close> to extend.  And once \<open>c1\<close> is recorded on \<open>s1\<close> on all three sides, a
  heartbeat of \<open>s1\<close> that does not list \<open>c1\<close> replaces \<open>stored_chunks\<close> alone.
\<close>

theorem sides_agree_counterexample:
  "sides_agree md_example \<and>
   \<not> sides_agree (snd (addChunkToServer md_example ''c9'' ''s1'')) \<and>
   sides_agree (snd (addChunkToServer md_example ''c1'' ''s1'')) \<and>
   \<not> sides_agree (snd (heartbeat_update (snd (addChunkToServer md_example ''c1'' ''s1'')) 0 hb_example))"
proof -
  let ?placed = "snd (addChunkToServer md_example ''c1'' ''s1'')"
  have known: "chunks md_example ''c1'' \<noteq> None" "chunks md_example ''c9'' = None"
    by (simp_all add: md_example_def)
  have a: "\<not> sides_agree (snd (addChunkToServer md_example ''c9'' ''s1''))"
  proof
    assume "sides_agree (snd (addChunkToServer md_example ''c9'' ''s1''))"
    from sides_agreeD(1) [OF this, of "''c9''" "''s1''"] show False
      by (simp add: addChunkToServer_effect known registered_md_example
            sides_agreeD [OF sides_agree_md_example])
         (simp add: in_c2s_def md_example_def index_get_def)
  qed
  have p: "sides_agree ?placed"
    by (rule sides_agreeI)
       (auto simp: addChunkToServer_effect known registered_md_example
             sides_agreeD [OF sides_agree_md_example])
  have reg: "registered ?placed (hb_server_id hb_example)"
    by (simp add: hb_example_def addChunkToServer_def Let_def registered_def md_example_def
          map_of_server_insert_chunk chunk_example_def)
  have h: "\<not> sides_agree (snd (heartbeat_update ?placed 0 hb_example))"
  proof
    assume "sides_agree (snd (heartbeat_update ?placed 0 hb_example))"
    from sides_agreeD(1) [OF this, of "''c1''" "''s1''"]
    have "in_locations ?placed ''c1'' ''s1'' =
          (if ''s1'' = hb_server_id hb_example then ''c1'' \<in> set (hb_stored_chunks hb_example)
           else in_stored ?placed ''c1'' ''s1'')"
      by (simp only: heartbeat_update_effect [OF reg])
    then show False
      by (simp add: addChunkToServer_effect known hb_example_def)
  qed
  from a p h show ?thesis by (simp add: sides_agree_md_example)
qed

section \<open>The rebalancing decision\<close>

lemma foldl_sq_fp_sum:
  "foldl (\<lambda>v load. fp_add pf v (fp_mul pf (fp_sub pf load m) (fp_sub pf load m))) a xs =
   foldl (fp_add pf) a (map (\<lambda>x. fp_mul pf (fp_sub pf x m) (fp_sub pf x m)) xs)"
  by (induction xs arbitrary: a) simp_all

lemma calculateClusterLoadVariance_eq:
  "calculateClusterLoadVariance pf md =
     (if length (getHealthyServers pf md) < 2 then fp_lit pf 0.0
      else population_stddev pf (map (calculateServerLoad pf) (getHealthyServers pf md)))"
  by (simp add: calculateClusterLoadVariance_def population_stddev_def fp_sum_def Let_def
        foldl_sq_fp_sum)

lemma concat_map_nonempty: "concat (map f xs) \<noteq> [] \<longleftrightarrow> (\<exists>x \<in> set xs. f x \<noteq> [])"
  by (induction xs) auto

lemma findOverloadedServers_nonempty:
  "findOverloadedServers pf md \<noteq> [] \<longleftrightarrow>
   (\<exists>server \<in> set (getHealthyServers pf md).
      fp_less pf (fp_lit pf 0.8) (calculateServerLoad pf server) \<and>
      getChunksForServer md (server_id server) \<noteq> [])"
proof -
  have "(if fp_less pf (fp_lit pf 0.8) (calculateServerLoad pf server)
         then (case getChunksForServer md (server_id server) of
                 [] \<Rightarrow> []
               | c # cs \<Rightarrow> [(server_id server, min_element (access_time md) c cs)])
         else []) \<noteq> [] \<longleftrightarrow>
        fp_less pf (fp_lit pf 0.8) (calculateServerLoad pf server) \<and>
        getChunksForServer md (server_id server) \<noteq> []"
    for server
    by (cases "getChunksForServer md (server_id server)") simp_all
  then show ?thesis
    unfolding findOverloadedServers_def concat_map_nonempty by simp
qed

text \<open>
  C8 as amended, for every platform: \<open>shouldRebalance\<close> is true exactly when the deviation
  the code computes in doubles compares greater than the double 0.3, or some healthy
  server has a computed load that compares greater than the double 0.8 and at least one
  chunk recorded for it in the server-to-chunks index.  The computed deviation is 0.0
  when fewer than two servers are healthy, and otherwise the population standard
  deviation of the healthy servers' computed loads, every sum taken from the left and
  every operation rounded as the platform rounds it.
\<close>

theorem shouldRebalance_iff:
  "shouldRebalance pf md \<longleftrightarrow>
     fp_less pf (fp_lit pf 0.3)
       (if length (getHealthyServers pf md) < 2 then fp_lit pf 0.0
        else population_stddev pf (map (calculateServerLoad pf) (getHealthyServers pf md))) \<or>
     (\<exists>server \<in> set (getHealthyServers pf md).
        fp_less pf (fp_lit pf 0.8) (calculateServerLoad pf server) \<and>
        getChunksForServer md (server_id server) \<noteq> [])"
  by (simp add: shouldRebalance_def Let_def calculateClusterLoadVariance_eq
        findOverloadedServers_nonempty)

lemma load_server_full:
  "calculateServerLoad exact_platform (server_full\<lparr> stored_chunks := cs, chunk_count := n \<rparr>) = Finite 1"
  by (simp add: calculateServerLoad_def server_full_def exact_platform_def exact_sub_def)

lemma iterate_table_single: "iterate_table pf [p] = [p]"
  by (simp add: iterate_table_def)

theorem shouldRebalance_iff_witness: "shouldRebalance exact_platform md_full_busy"
proof -
  have "getHealthyServers exact_platform md_full_busy =
          [server_full\<lparr> stored_chunks := [''c1''], chunk_count := 1 \<rparr>]"
    by (simp add: getHealthyServers_def md_full_busy_def server_full_def iterate_table_single)
  moreover have "getChunksForServer md_full_busy ''s1'' = [''c1'']"
    by (simp add: getChunksForServer_def index_get_def md_full_busy_def)
  moreover have "fp_less exact_platform (fp_lit exact_platform 0.8) (Finite 1)"
    by (simp add: exact_platform_def)
  ultimately show ?thesis
    using shouldRebalance_iff [of exact_platform md_full_busy]
    by (simp add: load_server_full) (simp add: server_full_def)
qed

text \<open>
  C8 as stated fails: a single healthy server with load 1.0 satisfies the rule, but with
  no chunk recorded for it \<open>findOverloadedServers\<close> has nothing to move and
  \<open>shouldRebalance\<close> is false.  (No rounding is involved: the load is compared with 0.8
  and the deviation of a single server is the literal 0.0.)
\<close>

theorem shouldRebalance_counterexample:
  "rebalance_rule exact_platform md_full_idle \<and> \<not> shouldRebalance exact_platform md_full_idle"
proof -
  have h: "getHealthyServers exact_platform md_full_idle = [server_full]"
    by (simp add: getHealthyServers_def md_full_idle_def server_full_def iterate_table_single)
  have l: "calculateServerLoad exact_platform server_full = Finite 1"
    using load_server_full [where cs = "stored_chunks server_full" and n = "chunk_count server_full"]
    by simp
  have "fp_less exact_platform (fp_lit exact_platform 0.8) (Finite 1)"
    by (simp add: exact_platform_def)
  then have "rebalance_rule exact_platform md_full_idle"
    by (simp add: rebalance_rule_def h l)
  moreover have "getChunksForServer md_full_idle (server_id server_full) = []"
    by (simp add: getChunksForServer_def index_get_def md_full_idle_def server_full_def)
  then have "findOverloadedServers exact_platform md_full_idle = []"
    by (simp add: findOverloadedServers_def h)
  moreover have "\<not> fp_less exact_platform (fp_lit exact_platform 0.3) (fp_lit exact_platform 0.0)"
    by (simp add: exact_platform_def)
  ultimately show ?thesis
    by (simp add: shouldRebalance_def calculateClusterLoadVariance_def h)
qed

section \<open>Allocator: where the chunks are placed\<close>

subsection \<open>The servers to draw from\<close>














subsection \<open>The selection strategies\<close>













subsection \<open>Recording a placement keeps the server table well formed\<close>

lemma set_alist_update: "set (AList.update k v al) \<subseteq> insert (k, v) (set al)"
  by (induction al) auto







subsection \<open>The loops of \<open>allocateChunks\<close>\<close>







lemma server_ids_consistent_update:
  assumes "server_ids_consistent md" "server_id sm = sid"
  shows "server_ids_consistent (md\<lparr> servers := AList.update sid sm (servers md) \<rparr>)"
proof -
  have "\<forall>p \<in> set (AList.update sid sm (servers md)). server_id (snd p) = fst p"
  proof
    fix p assume "p \<in> set (AList.update sid sm (servers md))"
    then have "p \<in> insert (sid, sm) (set (servers md))"
      by (rule subsetD [OF set_alist_update])
    with assms show "server_id (snd p) = fst p"
      by (auto simp: server_ids_consistent_def)
  qed
  with assms(1) show ?thesis
    by (simp add: server_ids_consistent_def distinct_update)
qed


lemma heartbeat_update_ids:
  assumes "server_ids_consistent md"
  shows "server_ids_consistent (snd (heartbeat_update md now request))"
proof (cases "map_of (servers md) (hb_server_id request)")
  case None
  with assms show ?thesis
    by (simp add: heartbeat_update_def getServerMetadata_def)
next
  case (Some sm)
  let ?sm = "sm\<lparr> free_space := hb_free_space request, chunk_count := hb_chunk_count request,
                 cpu_usage := hb_cpu_usage request, memory_usage := hb_memory_usage request,
                 last_heartbeat := now, is_healthy := True,
                 stored_chunks := fold set_insert (hb_stored_chunks request) [] \<rparr>"
  from Some have "(hb_server_id request, sm) \<in> set (servers md)" by (rule map_of_SomeD)
  with assms have "server_id ?sm = hb_server_id request"
    by (auto simp: server_ids_consistent_def)
  from server_ids_consistent_update [OF assms this] Some show ?thesis
    by (simp add: heartbeat_update_def getServerMetadata_def updateServerMetadata_def Let_def)
qed







section \<open>Chunk server: writes and reads\<close>

lemma writeChunk_failure:
  assumes "writeChunk sha256 render now io st cid d enc ec = (False, st')"
  shows "cs_stored_chunks st' = cs_stored_chunks st"
    and "chunk_checksums st' = chunk_checksums st"
  using assms
  by (auto simp: writeChunk_def Let_def writeFile_def saveChunkMetadata_def deleteFile_def
           split: write_outcome.splits prod.splits bool.splits if_splits)

lemma writeChunk_sidecar_failure:
  assumes "data_write io = WriteOk" "meta_write io = OpenFails" "unlink_ok io"
  shows "writeChunk sha256 render now io st cid d enc ec =
           (False, st\<lparr> files := (files st)(getChunkFilePath cid := None) \<rparr>)"
  using assms
  by (simp add: writeChunk_def Let_def writeFile_def saveChunkMetadata_def deleteFile_def)

text \<open>
  C9 fails in the code on a data-write failure.  A request whose checksum is absent or
  right, with more data than the stream buffers, on a disk that takes only \<open>partial\<close> of
  them: \<open>WriteChunk\<close> answers with failure, the stored-chunk set and the checksum index are
  as before, but the data file of the chunk is there, holding \<open>partial\<close>.  \<open>writeChunk\<close>
  returns on the failed \<open>Utils::writeFile\<close> without the \<open>Utils::deleteFile\<close> that its
  sidecar-failure branch performs.
\<close>

theorem WriteChunk_leaves_partial_file:
  assumes "wr_checksum request = [] \<or> sha256 (wr_data request) = wr_checksum request"
      and "data_write io = WriteFails partial"
      and "stream_buffer io < length (wr_data request)"
      and "WriteChunk sha256 render now io srv request = (response, srv')"
  shows "\<not> ws_success response \<and>
         cs_stored_chunks (storage srv') = cs_stored_chunks (storage srv) \<and>
         chunk_checksums (storage srv') = chunk_checksums (storage srv) \<and>
         files (storage srv') (getChunkFilePath (wr_chunk_id request)) = Some partial"
proof -
  from assms(2,3)
  have "writeChunk sha256 render now io (storage srv) (wr_chunk_id request) (wr_data request)
          (wr_is_encrypted request) (wr_is_erasure_coded request) =
        (False, (storage srv)\<lparr> files := (files (storage srv))(getChunkFilePath (wr_chunk_id request) \<mapsto> partial) \<rparr>)"
    by (simp add: writeChunk_def Let_def writeFile_def)
  with assms(1,4) show ?thesis
    by (auto simp: WriteChunk_def Let_def)
qed

lemma srv_one_eval:
  "storage srv_one =
     \<lparr> files = [''c1'' \<mapsto> [1, 2, 3], ''c1.meta'' \<mapsto> toy_render ''c1'' ''3'' False False 0],
       chunk_checksums = [''c1'' \<mapsto> ''3''], cs_stored_chunks = [''c1''] \<rparr>"
proof -
  have "toy_digest [1, 2, 3] = ''3''"
    by code_simp
  then show ?thesis
    by (simp add: srv_one_def WriteChunk_def writeChunk_def Let_def write_request_def io_ok_def
          srv_empty_def writeFile_def saveChunkMetadata_def getChunkFilePath_def
          getChunkMetadataPath_def set_insert_def)
qed

theorem WriteChunk_leaves_partial_file_witness:
  "\<not> ws_success (fst (WriteChunk toy_digest toy_render 0
                        (io_ok\<lparr> data_write := WriteFails (replicate 4096 0) \<rparr>) srv_empty
                        (write_request ''c2'' (replicate 8193 0) []))) \<and>
   files (storage (snd (WriteChunk toy_digest toy_render 0
                          (io_ok\<lparr> data_write := WriteFails (replicate 4096 0) \<rparr>) srv_empty
                          (write_request ''c2'' (replicate 8193 0) [])))) ''c2''
     = Some (replicate 4096 0)"
  using WriteChunk_leaves_partial_file [of "write_request ''c2'' (replicate 8193 0) []" toy_digest
          "io_ok\<lparr> data_write := WriteFails (replicate 4096 0) \<rparr>" "replicate 4096 0"
          toy_render 0 srv_empty, OF _ _ _ surjective_pairing]
  by (simp add: write_request_def io_ok_def getChunkFilePath_def)

subsection \<open>Reads\<close>

lemma readChunk_result:
  assumes "readChunk sha256 parse st cid = d" "d \<noteq> []"
  shows "case recorded_checksum parse st cid of
           Some e \<Rightarrow> sha256 d = e
         | None \<Rightarrow> \<not> verifyChunkIntegrity sha256 parse st cid"
  using assms
  by (auto simp: readChunk_def recorded_checksum_def verifyChunkIntegrity_def loadChunkMetadata_def
           Let_def split: if_splits option.splits)

text \<open>
  C10: when \<open>ReadChunk\<close> succeeds for a chunk with a recorded checksum (the index entry,
  or else the checksum of a sidecar that parses), the digest of the bytes it returns
  equals that checksum, whatever the request's \<open>verify_integrity\<close> flag; and bytes of a
  chunk with no recorded checksum are returned only when the flag is false.
\<close>

theorem ReadChunk_verified:
  assumes "ReadChunk sha256 parse srv request = (response, srv')"
      and "rs_success response"
  shows "case recorded_checksum parse (storage srv) (rr_chunk_id request) of
           Some e \<Rightarrow> sha256 (rs_data response) = e
         | None \<Rightarrow> \<not> verify_integrity request"
proof -
  let ?d = "readChunk sha256 parse (storage srv) (rr_chunk_id request)"
  from assms have d: "?d \<noteq> []" "rs_data response = ?d"
    and v: "verify_integrity request \<longrightarrow> verifyChunkIntegrity sha256 parse (storage srv) (rr_chunk_id request)"
    by (auto simp: ReadChunk_def Let_def split: if_splits)
  from readChunk_result [OF refl d(1)] d(2) v show ?thesis
    by (auto split: option.splits)
qed

theorem ReadChunk_verified_witness:
  "rs_success (fst (ReadChunk toy_digest toy_parse srv_one \<lparr> rr_chunk_id = ''c1'', verify_integrity = False \<rparr>)) \<and>
   recorded_checksum toy_parse (storage srv_one) ''c1'' = Some ''3'' \<and>
   toy_digest (rs_data (fst (ReadChunk toy_digest toy_parse srv_one
                               \<lparr> rr_chunk_id = ''c1'', verify_integrity = False \<rparr>))) = ''3''"
proof -
  have d: "toy_digest [1, 2, 3] = ''3''"
    by code_simp
  have ok: "rs_success (fst (ReadChunk toy_digest toy_parse srv_one \<lparr> rr_chunk_id = ''c1'', verify_integrity = False \<rparr>))"
    by (simp add: ReadChunk_def readChunk_def Let_def srv_one_eval readFile_def getChunkFilePath_def d)
  have rec: "recorded_checksum toy_parse (storage srv_one) ''c1'' = Some ''3''"
    by (simp add: recorded_checksum_def srv_one_eval)
  from ReadChunk_verified [OF surjective_pairing ok] rec ok show ?thesis
    by simp
qed

section \<open>Crypto: the generated key and the cipher wrapper\<close>

lemma length_concat_hex_byte:
  "length (concat (map hex_byte bs)) = 2 * length bs"
  by (induction bs) (simp_all add: hex_byte_def)

lemma length_generateRandomKey:
  "length (generateRandomKey r) = (if rand_ok r then 2 * KEY_SIZE else 0)"
  using length_concat_hex_byte [of "map (rand_byte r) [0..<KEY_SIZE]"]
  by (simp add: generateRandomKey_def RAND_bytes_def del: map_map)

lemma generateRandomKey_not_KEY_SIZE:
  "length (generateRandomKey r) \<noteq> KEY_SIZE"
  by (simp add: length_generateRandomKey KEY_SIZE_def)

text \<open>
  C5 fails in the code: the key that \<open>CreateFile\<close> mints and stores under
  \<open>file_id + "_key"\<close> is the hex rendering of 32 random bytes, 64 characters (or the empty
  string when \<open>RAND_bytes\<close> fails), and \<open>encrypt\<close> and \<open>decrypt\<close> return the empty vector for
  every key whose size is not 32.  So under the stored key no slice is encrypted, whatever
  the cipher, the random source and the slice: the upload step returns false, and nothing
  of the form IV, ciphertext, tag is produced.
\<close>

theorem generated_key_rejected:
  "encrypt gcm r chunk_data (generateRandomKey r') = [] \<and>
   decrypt gcm blob (generateRandomKey r') = [] \<and>
   encryptChunk gcm r (CreateFile_key r' km file_id) chunk_data (file_id @ ''_key'') = [] \<and>
   decryptChunk gcm (CreateFile_key r' km file_id) blob (file_id @ ''_key'') = [] \<and>
   upload_encrypt_slice gcm r (CreateFile_key r' km file_id) file_id chunk_data = None"
  by (simp add: encrypt_def decrypt_def encryptChunk_def decryptChunk_def upload_encrypt_slice_def
        CreateFile_key_def storeKey_def getKey_def hasKey_def generateKey_def Let_def
        generateRandomKey_not_KEY_SIZE)

theorem generated_key_rejected_witness:
  "encrypt toy_gcm \<lparr> rand_ok = True, rand_byte = (\<lambda>i. 0) \<rparr> [1]
     (generateRandomKey \<lparr> rand_ok = True, rand_byte = (\<lambda>i. 7) \<rparr>) = [] \<and>
   upload_encrypt_slice toy_gcm \<lparr> rand_ok = True, rand_byte = (\<lambda>i. 0) \<rparr>
     (CreateFile_key \<lparr> rand_ok = True, rand_byte = (\<lambda>i. 7) \<rparr> \<lparr> keys = Map.empty \<rparr> ''f1'') ''f1'' [1] = None"
  using generated_key_rejected [of toy_gcm "\<lparr> rand_ok = True, rand_byte = (\<lambda>i. 0) \<rparr>" "[1]"
          "\<lparr> rand_ok = True, rand_byte = (\<lambda>i. 7) \<rparr>" "[]" "\<lparr> keys = Map.empty \<rparr>" "''f1''"]
  by simp

end
